theory Spec2Isabelle
  imports Complex_Main "HOL-Library.Sublist" "HOL-Library.Word" "HOL-Library.Log_Nat"
begin

section \<open>Values of the JavaScript runtime\<close>

text \<open>
  A thrown value. The handlers read three things from it: \<open>err.message\<close>, whether it is
  a \<open>SendTransactionError\<close> (\<open>instanceof\<close> in one variant, \<open>err.name\<close> in another) and
  its optional \<open>err.logs\<close>. Every thrown value is taken to be an error object with a
  message.
\<close>

datatype js_error =
  JsError (message: string) (isSendTransactionError: bool) (logs: "string list option")

text \<open>\<open>new Error(msg)\<close>: a plain error, no logs.\<close>

definition new_Error :: "string \<Rightarrow> js_error" where
  "new_Error msg = JsError msg False None"

text \<open>\<open>String.prototype.includes\<close>: the argument occurs as a contiguous run.\<close>

definition str_includes :: "string \<Rightarrow> string \<Rightarrow> bool" where
  "str_includes s needle = sublist needle s"

text \<open>
  A JavaScript number: an IEEE 754 double. The finite doubles are the rationals that
  \<open>binary64\<close> below leaves unchanged; whatever the runtime computes is rounded to one of
  them. Minus zero is not told apart from zero.
\<close>

datatype js_number = NaN | NegInfinity | Finite rat | Infinity

fun isNaN :: "js_number \<Rightarrow> bool" where
  "isNaN NaN = True"
| "isNaN _ = False"

text \<open>\<open>x <= 0\<close>; every comparison with \<open>NaN\<close> is false.\<close>

fun le_zero :: "js_number \<Rightarrow> bool" where
  "le_zero NaN = False"
| "le_zero NegInfinity = True"
| "le_zero (Finite q) = (q \<le> 0)"
| "le_zero Infinity = False"

subsection \<open>Rounding to a double\<close>

text \<open>The nearest integer, a tie going to the even one.\<close>

definition round_ties_even :: "rat \<Rightarrow> int" where
  "round_ties_even y =
     (let f = \<lfloor>y\<rfloor>; d = y - of_int f
      in if d < 1 / 2 then f else if 1 / 2 < d then f + 1 else if even f then f else f + 1)"

text \<open>
  The binary exponent of a rational other than zero: the \<open>k\<close> with
  \<open>2 ^ k \<le> |x| < 2 ^ (k + 1)\<close>, found from the bit lengths of numerator and
  denominator.
\<close>

definition ilog2 :: "rat \<Rightarrow> int" where
  "ilog2 x =
     (case quotient_of \<bar>x\<bar> of
        (p, q) \<Rightarrow> let k = bitlen p - bitlen q in if 2 powi k \<le> \<bar>x\<bar> then k else k - 1)"

text \<open>
  Round to nearest, ties to even, with the 53-bit significand of binary64; below
  \<open>2 ^ -1022\<close> the spacing stays at \<open>2 ^ -1074\<close> (subnormal numbers). What reaches
  \<open>2 ^ 1024\<close> after rounding overflows to an infinity.
\<close>

definition binary64 :: "rat \<Rightarrow> rat" where
  "binary64 x =
     (if x = 0 then 0
      else let e = max (ilog2 x - 52) (- 1074)
           in of_int (round_ties_even (x / 2 powi e)) * 2 powi e)"

definition js_of_rat :: "rat \<Rightarrow> js_number" where
  "js_of_rat x =
     (let r = binary64 x
      in if 2 ^ 1024 \<le> r then Infinity else if r \<le> - (2 ^ 1024) then NegInfinity else Finite r)"

text \<open>The constant exported by the RPC client library: lamports in one SOL.\<close>

definition LAMPORTS_PER_SOL :: rat where
  "LAMPORTS_PER_SOL = 1000000000"

text \<open>
  \<open>amount * LAMPORTS_PER_SOL\<close> and \<open>bal / LAMPORTS_PER_SOL\<close>: the exact result rounded to a
  double. The constant is finite and positive, so \<open>NaN\<close> and the infinities stay.
\<close>

fun times_LAMPORTS_PER_SOL :: "js_number \<Rightarrow> js_number" where
  "times_LAMPORTS_PER_SOL (Finite q) = js_of_rat (q * LAMPORTS_PER_SOL)"
| "times_LAMPORTS_PER_SOL x = x"

fun divide_LAMPORTS_PER_SOL :: "js_number \<Rightarrow> js_number" where
  "divide_LAMPORTS_PER_SOL (Finite q) = js_of_rat (q / LAMPORTS_PER_SOL)"
| "divide_LAMPORTS_PER_SOL x = x"

text \<open>
  \<open>Math.round\<close>: the nearest integer, halves towards plus infinity. The result is exact:
  a double of magnitude \<open>2 ^ 52\<close> or more is an integer already.
\<close>

fun Math_round :: "js_number \<Rightarrow> js_number" where
  "Math_round (Finite q) = Finite (of_int \<lfloor>q + 1 / 2\<rfloor>)"
| "Math_round x = x"

text \<open>
  The \<open>lamports\<close> field of the transfer instruction: \<open>amount * LAMPORTS_PER_SOL\<close> in three
  variants, \<open>Math.round(amount * LAMPORTS_PER_SOL)\<close> in the variant with
  \<open>confirmTransactionWithRetry\<close>.
\<close>

definition lamports_of_amount :: "js_number \<Rightarrow> js_number" where
  "lamports_of_amount amount = times_LAMPORTS_PER_SOL amount"

definition lamports_of_amount_rounded :: "js_number \<Rightarrow> js_number" where
  "lamports_of_amount_rounded amount = Math_round (times_LAMPORTS_PER_SOL amount)"

section \<open>The wallet and the RPC endpoint\<close>

record lease =
  blockhash :: string
  lastValidBlockHeight :: nat

record transaction =
  feePayer :: "string option"
  recentBlockhash :: "string option"
  fromPubkey :: string
  toPubkey :: string
  lamports :: js_number

type_synonym byte = "8 word"

text \<open>
  Every call that leaves the page, with the clock reading at which it was issued and
  the arguments the handlers pass.
\<close>

datatype rpc_call =
    GetBlockhash nat
  | SendTransaction nat transaction "nat option"
  | ConfirmTransaction nat string "lease option" "nat option"
  | RequestAirdrop nat string js_number
  | GetBalance nat string
  | SignMessage nat "byte list"

fun is_GetBlockhash :: "rpc_call \<Rightarrow> bool" where
  "is_GetBlockhash (GetBlockhash _) = True"
| "is_GetBlockhash _ = False"

fun is_SendTransaction :: "rpc_call \<Rightarrow> bool" where
  "is_SendTransaction (SendTransaction _ _ _) = True"
| "is_SendTransaction _ = False"

fun is_ConfirmTransaction :: "rpc_call \<Rightarrow> bool" where
  "is_ConfirmTransaction (ConfirmTransaction _ _ _ _) = True"
| "is_ConfirmTransaction _ = False"

fun is_RequestAirdrop :: "rpc_call \<Rightarrow> bool" where
  "is_RequestAirdrop (RequestAirdrop _ _ _) = True"
| "is_RequestAirdrop _ = False"

fun is_GetBalance :: "rpc_call \<Rightarrow> bool" where
  "is_GetBalance (GetBalance _ _) = True"
| "is_GetBalance _ = False"

fun is_SignMessage :: "rpc_call \<Rightarrow> bool" where
  "is_SignMessage (SignMessage _ _) = True"
| "is_SignMessage _ = False"

definition count_calls :: "(rpc_call \<Rightarrow> bool) \<Rightarrow> rpc_call list \<Rightarrow> nat" where
  "count_calls p cs = length (filter p cs)"

text \<open>
  The world outside the page. \<open>clock\<close> is what \<open>Date.now()\<close> reads, \<open>calls\<close> the calls
  issued so far, \<open>timers\<close> the number of \<open>setTimeout\<close> waits so far. The remaining fields
  script the collaborators: the \<open>k\<close>-th call of a kind takes the scripted number of
  milliseconds and then resolves (\<open>Inr\<close>) or rejects (\<open>Inl\<close>) as scripted. A blockhash
  reply carries the context slot and the lease; a confirmation reply says whether
  \<open>confirmation.value.err\<close> is set; \<open>timer_lag\<close> is how late the \<open>k\<close>-th timer fires.
\<close>

record world =
  clock :: nat
  calls :: "rpc_call list"
  timers :: nat
  on_blockhash :: "nat \<Rightarrow> nat \<times> (js_error + nat \<times> lease)"
  on_send :: "nat \<Rightarrow> nat \<times> (js_error + string)"
  on_confirm :: "nat \<Rightarrow> nat \<times> (js_error + bool)"
  on_airdrop :: "nat \<Rightarrow> nat \<times> (js_error + string)"
  on_balance :: "nat \<Rightarrow> nat \<times> (js_error + nat)"
  on_sign :: "nat \<Rightarrow> nat \<times> (js_error + byte list)"
  timer_lag :: "nat \<Rightarrow> nat"

text \<open>
  A call is logged with the clock reading at which it is issued, and the clock moves
  on by the scripted duration. \<open>getLatestBlockhash\<close> also stands for
  \<open>getLatestBlockhashAndContext\<close> and for the older \<open>getRecentBlockhash\<close>, which differ in
  what they return besides the blockhash; the commitment level passed to a call is not
  kept.
\<close>

definition issue :: "rpc_call \<Rightarrow> nat \<Rightarrow> world \<Rightarrow> world" where
  "issue c d w = w\<lparr>clock := clock w + d, calls := calls w @ [c]\<rparr>"

definition getLatestBlockhash :: "world \<Rightarrow> (js_error + nat \<times> lease) \<times> world" where
  "getLatestBlockhash w =
     (case on_blockhash w (count_calls is_GetBlockhash (calls w)) of
        (d, r) \<Rightarrow> (r, issue (GetBlockhash (clock w)) d w))"

definition sendTransaction ::
  "transaction \<Rightarrow> nat option \<Rightarrow> world \<Rightarrow> (js_error + string) \<times> world" where
  "sendTransaction tx minContextSlot w =
     (case on_send w (count_calls is_SendTransaction (calls w)) of
        (d, r) \<Rightarrow> (r, issue (SendTransaction (clock w) tx minContextSlot) d w))"

definition confirmTransaction ::
  "string \<Rightarrow> lease option \<Rightarrow> nat option \<Rightarrow> world \<Rightarrow> (js_error + bool) \<times> world" where
  "confirmTransaction sg l minContextSlot w =
     (case on_confirm w (count_calls is_ConfirmTransaction (calls w)) of
        (d, r) \<Rightarrow> (r, issue (ConfirmTransaction (clock w) sg l minContextSlot) d w))"

text \<open>\<open>await new Promise(resolve => setTimeout(resolve, ms))\<close>: at least \<open>ms\<close> pass.\<close>

definition sleep :: "nat \<Rightarrow> world \<Rightarrow> world" where
  "sleep ms w = w\<lparr>clock := clock w + ms + timer_lag w (timers w), timers := Suc (timers w)\<rparr>"

section \<open>Confirmation with retry\<close>

text \<open>
  The test of the \<open>catch\<close> block of \<open>confirmTransactionWithRetry\<close>: the error is taken
  for an expired blockhash when its message holds one of two phrases.
\<close>

definition blockhash_expired :: "js_error \<Rightarrow> bool" where
  "blockhash_expired err \<longleftrightarrow>
     str_includes (message err) ''Blockhash not found'' \<or> str_includes (message err) ''blockhash expired''"

text \<open>
  What the \<open>try\<close> block throws, if anything: the rejection of \<open>confirmTransaction\<close>, or
  \<open>Error('Transaction failed')\<close> when the confirmation carries an error value.
\<close>

fun thrown_by_confirmation :: "js_error + bool \<Rightarrow> js_error option" where
  "thrown_by_confirmation (Inl err) = Some err"
| "thrown_by_confirmation (Inr value_err) =
     (if value_err then Some (new_Error ''Transaction failed'') else None)"

text \<open>
  The \<open>while\<close> loop of \<open>confirmTransactionWithRetry\<close>, with the locals it reads and
  rebinds as arguments. The loop has no bound of its own (a zero interval with
  instant replies never reaches the deadline), so it runs on fuel: \<open>None\<close> means the
  fuel ran out before the function returned or threw. \<open>Inl\<close> is a thrown error,
  \<open>Inr\<close> the returned string.
\<close>

fun confirm_loop ::
  "nat \<Rightarrow> string \<Rightarrow> nat \<Rightarrow> nat \<Rightarrow> nat \<Rightarrow> lease \<Rightarrow> world \<Rightarrow> ((js_error + string) \<times> world) option" where
  "confirm_loop 0 sg startTime timeout retryInterval l w = None"
| "confirm_loop (Suc fuel) sg startTime timeout retryInterval l w =
     (if clock w - startTime < timeout then
        (case confirmTransaction sg (Some l) None w of
           (reply, w1) \<Rightarrow>
             (case thrown_by_confirmation reply of
                None \<Rightarrow> Some (Inr ''success'', w1)
              | Some err \<Rightarrow>
                  if blockhash_expired err then
                    (case getLatestBlockhash w1 of
                       (Inl err2, w2) \<Rightarrow> Some (Inl err2, w2)
                     | (Inr (slot, newBlockData), w2) \<Rightarrow>
                         confirm_loop fuel sg startTime timeout retryInterval newBlockData
                           (sleep retryInterval w2))
                  else Some (Inl err, w1)))
      else Some (Inr ''timeout'', w))"

definition confirmTransactionWithRetry ::
  "nat \<Rightarrow> string \<Rightarrow> lease \<Rightarrow> nat \<Rightarrow> nat \<Rightarrow> world \<Rightarrow> ((js_error + string) \<times> world) option" where
  "confirmTransactionWithRetry fuel sg l timeout retryInterval w =
     confirm_loop fuel sg (clock w) timeout retryInterval l w"

text \<open>The defaults of the last two parameters.\<close>

definition default_timeout :: nat where
  "default_timeout = 60000"

definition default_retryInterval :: nat where
  "default_retryInterval = 2000"


section \<open>The page: component state and library calls\<close>

text \<open>
  What \<open>alert\<close> shows. Fixed texts are kept as written (without their emoji); texts
  built from a template keep the values the template prints.
\<close>

datatype alert =
    Alert string
  | AlertSuccess string
  | AlertSent js_number string
  | AlertAirdropped js_number
  | AlertFailed string

text \<open>
  The state a component holds through \<open>useState\<close> and \<open>useWallet\<close>, and the alerts it
  has raised. Each of the three components has its own; a field a component does not
  have stays untouched. \<open>console.log\<close> and \<open>console.error\<close> are not shown to the user
  and are left out.
\<close>

record component =
  publicKey :: "string option"
  loading :: bool
  error :: "string option"
  alerts :: "alert list"
  balance :: "js_number option"
  signature :: string

definition raise_alert :: "alert \<Rightarrow> component \<Rightarrow> component" where
  "raise_alert a c = c\<lparr>alerts := alerts c @ [a]\<rparr>"

text \<open>
  Library functions the handlers call and this repository does not define: \<open>parseFloat\<close>
  (its finite results are doubles), whether \<open>new PublicKey(s)\<close> accepts \<open>s\<close>, and the error,
  if any, that building the transfer transaction throws.
\<close>

record lib =
  parseFloat :: "string \<Rightarrow> js_number"
  PublicKey_valid :: "string \<Rightarrow> bool"
  build_error :: "transaction \<Rightarrow> js_error option"

text \<open>\<open>parseFloat\<close> of what \<open>prompt\<close> returned: \<open>null\<close> reads as the text \<open>null\<close>.\<close>

definition parseFloat_prompt :: "lib \<Rightarrow> string option \<Rightarrow> js_number" where
  "parseFloat_prompt lb x = parseFloat lb (case x of None \<Rightarrow> ''null'' | Some s \<Rightarrow> s)"

definition requestAirdrop_rpc ::
  "string \<Rightarrow> js_number \<Rightarrow> world \<Rightarrow> (js_error + string) \<times> world" where
  "requestAirdrop_rpc pk amount w =
     (case on_airdrop w (count_calls is_RequestAirdrop (calls w)) of
        (d, r) \<Rightarrow> (r, issue (RequestAirdrop (clock w) pk amount) d w))"

definition getBalance_rpc :: "string \<Rightarrow> world \<Rightarrow> (js_error + nat) \<times> world" where
  "getBalance_rpc pk w =
     (case on_balance w (count_calls is_GetBalance (calls w)) of
        (d, r) \<Rightarrow> (r, issue (GetBalance (clock w) pk) d w))"

definition signMessage :: "byte list \<Rightarrow> world \<Rightarrow> (js_error + byte list) \<times> world" where
  "signMessage bytes w =
     (case on_sign w (count_calls is_SignMessage (calls w)) of
        (d, r) \<Rightarrow> (r, issue (SignMessage (clock w) bytes) d w))"

section \<open>Balance and airdrop\<close>

text \<open>
  \<open>bal / LAMPORTS_PER_SOL\<close>, for the balance the endpoint reports in whole lamports; the
  balance reaches the page as a double.
\<close>

definition sol_of_lamports :: "nat \<Rightarrow> js_number" where
  "sol_of_lamports bal = divide_LAMPORTS_PER_SOL (js_of_rat (of_nat bal))"

definition getBalance :: "component \<Rightarrow> world \<Rightarrow> component \<times> world" where
  "getBalance c w =
     (case publicKey c of
        None \<Rightarrow> (c, w)
      | Some pk \<Rightarrow>
          (case getBalance_rpc pk w of
             (Inr bal, w1) \<Rightarrow> (c\<lparr>balance := Some (sol_of_lamports bal)\<rparr>, w1)
           | (Inl err, w1) \<Rightarrow> (c\<lparr>error := Some ''Failed to fetch balance''\<rparr>, w1)))"

text \<open>
  The \<open>try\<close> block of \<open>requestAirdrop\<close>, the same in every variant: the first component
  is what it throws to the \<open>catch\<close> block. The value of the confirmation is not looked
  at.
\<close>

definition airdrop_try ::
  "string \<Rightarrow> js_number \<Rightarrow> component \<Rightarrow> world \<Rightarrow> js_error option \<times> component \<times> world" where
  "airdrop_try pk amount c w =
     (case requestAirdrop_rpc pk (lamports_of_amount amount) w of
        (Inl err, w1) \<Rightarrow> (Some err, c, w1)
      | (Inr sg, w1) \<Rightarrow>
          (case confirmTransaction sg None None w1 of
             (Inl err, w2) \<Rightarrow> (Some err, c, w2)
           | (Inr _, w2) \<Rightarrow>
               (case getBalance c w2 of
                  (c3, w3) \<Rightarrow> (None, raise_alert (AlertAirdropped amount) c3, w3))))"

text \<open>\<open>requestAirdrop\<close> of \<open>src/App.jsx\<close> and of the variant with the manual hex encoding.\<close>

definition requestAirdrop_App :: "lib \<Rightarrow> string \<Rightarrow> component \<Rightarrow> world \<Rightarrow> component \<times> world" where
  "requestAirdrop_App lb amountValue c w =
     (case publicKey c of
        None \<Rightarrow> (raise_alert (Alert ''Please connect your wallet first.'') c, w)
      | Some pk \<Rightarrow>
          (let amount = parseFloat lb amountValue in
           if isNaN amount then (raise_alert (Alert ''Please enter a valid amount'') c, w)
           else if le_zero amount then (raise_alert (Alert ''Amount must be greater than 0'') c, w)
           else
             (case airdrop_try pk amount (c\<lparr>loading := True, error := None\<rparr>) w of
                (thrown, c1, w1) \<Rightarrow>
                  (let c2 = (case thrown of
                               None \<Rightarrow> c1
                             | Some err \<Rightarrow> c1\<lparr>error := Some ''Failed to request airdrop''\<rparr>)
                   in (c2\<lparr>loading := False\<rparr>, w1)))))"

text \<open>\<open>requestAirdrop\<close> of the two variants that encode signatures with \<open>Buffer\<close>.\<close>

definition requestAirdrop_Buffer :: "lib \<Rightarrow> string \<Rightarrow> component \<Rightarrow> world \<Rightarrow> component \<times> world" where
  "requestAirdrop_Buffer lb amountValue c w =
     (case publicKey c of
        None \<Rightarrow> (raise_alert (Alert ''Please connect your wallet first.'') c, w)
      | Some pk \<Rightarrow>
          (let amount = parseFloat lb amountValue in
           if isNaN amount \<or> le_zero amount
           then (raise_alert (Alert ''Please enter valid amount > 0'') c, w)
           else
             (case airdrop_try pk amount (c\<lparr>loading := True, error := None\<rparr>) w of
                (thrown, c1, w1) \<Rightarrow>
                  (let c2 = (case thrown of
                               None \<Rightarrow> c1
                             | Some err \<Rightarrow> c1\<lparr>error := Some (''Airdrop failed: '' @ message err)\<rparr>)
                   in (c2\<lparr>loading := False\<rparr>, w1)))))"


section \<open>Transfer\<close>

text \<open>\<open>Array.prototype.join\<close>.\<close>

fun js_join :: "string \<Rightarrow> string list \<Rightarrow> string" where
  "js_join sep [] = []"
| "js_join sep [x] = x"
| "js_join sep (x # y # ys) = x @ sep @ js_join sep (y # ys)"

definition newline :: string where
  "newline = [CHR 0x0A]"

subsection \<open>\<open>handleSend\<close> of \<open>src/App.jsx\<close> and of the variant with the manual hex encoding\<close>

definition send_try_App ::
  "lib \<Rightarrow> string \<Rightarrow> string \<Rightarrow> js_number \<Rightarrow> component \<Rightarrow> world \<Rightarrow> js_error option \<times> component \<times> world" where
  "send_try_App lb pk to amount c w =
     (let tx = \<lparr>feePayer = None, recentBlockhash = None, fromPubkey = pk, toPubkey = to,
                 lamports = lamports_of_amount amount\<rparr>
      in case build_error lb tx of
           Some err \<Rightarrow> (Some err, c, w)
         | None \<Rightarrow>
             (case getLatestBlockhash w of
                (Inl err, w1) \<Rightarrow> (Some err, c, w1)
              | (Inr (slot, l), w1) \<Rightarrow>
                  (case sendTransaction
                          (tx\<lparr>recentBlockhash := Some (blockhash l), feePayer := Some pk\<rparr>) None w1 of
                     (Inl err, w2) \<Rightarrow> (Some err, c, w2)
                   | (Inr sg, w2) \<Rightarrow>
                       (case confirmTransaction sg None None w2 of
                          (Inl err, w3) \<Rightarrow> (Some err, c, w3)
                        | (Inr _, w3) \<Rightarrow> (None, raise_alert (AlertSent amount to) c, w3)))))"

definition handleSend_App ::
  "lib \<Rightarrow> string option \<Rightarrow> string option \<Rightarrow> component \<Rightarrow> world \<Rightarrow> component \<times> world" where
  "handleSend_App lb to_prompt amountInput c w =
     (case publicKey c of
        None \<Rightarrow> (raise_alert (Alert ''Please connect your wallet first.'') c, w)
      | Some pk \<Rightarrow>
          (case to_prompt of
             None \<Rightarrow> (raise_alert (Alert ''Recipient address is required'') c, w)
           | Some to \<Rightarrow>
               if to = [] then (raise_alert (Alert ''Recipient address is required'') c, w)
               else if \<not> PublicKey_valid lb to
               then (raise_alert (Alert ''Invalid recipient address'') c, w)
               else
                 (let amount = parseFloat_prompt lb amountInput in
                  if isNaN amount \<or> le_zero amount
                  then (raise_alert (Alert ''Please enter a valid amount greater than 0'') c, w)
                  else
                    (case send_try_App lb pk to amount (c\<lparr>loading := True, error := None\<rparr>) w of
                       (thrown, c1, w1) \<Rightarrow>
                         (let c2 = (case thrown of
                                      None \<Rightarrow> c1
                                    | Some err \<Rightarrow>
                                        raise_alert (Alert ''Transaction failed. Please try again.'')
                                          (c1\<lparr>error := Some ''Transaction failed''\<rparr>))
                          in (c2\<lparr>loading := False\<rparr>, w1))))))"

subsection \<open>\<open>handleSend\<close> of the variant with \<open>confirmTransactionWithRetry\<close>\<close>

text \<open>
  The \<open>try\<close> block. \<open>None\<close> is fuel running out inside the confirmation helper; otherwise
  the first component is what the block throws.
\<close>

definition send_try_confirm ::
  "nat \<Rightarrow> lib \<Rightarrow> string \<Rightarrow> string \<Rightarrow> js_number \<Rightarrow> component \<Rightarrow> world \<Rightarrow>
     (js_error option \<times> component \<times> world) option" where
  "send_try_confirm fuel lb pk to amount c w =
     (case getLatestBlockhash w of
        (Inl err, w1) \<Rightarrow> Some (Some err, c, w1)
      | (Inr (slot, l), w1) \<Rightarrow>
          (let tx = \<lparr>feePayer = Some pk, recentBlockhash = Some (blockhash l), fromPubkey = pk,
                      toPubkey = to, lamports = lamports_of_amount_rounded amount\<rparr>
           in case build_error lb tx of
                Some err \<Rightarrow> Some (Some err, c, w1)
              | None \<Rightarrow>
                  (case sendTransaction tx None w1 of
                     (Inl err, w2) \<Rightarrow> Some (Some err, c, w2)
                   | (Inr sg, w2) \<Rightarrow>
                       (case confirmTransactionWithRetry fuel sg l default_timeout
                               default_retryInterval w2 of
                          None \<Rightarrow> None
                        | Some (Inl err, w3) \<Rightarrow> Some (Some err, c, w3)
                        | Some (Inr result, w3) \<Rightarrow>
                            if result = ''success''
                            then Some (None, raise_alert (AlertSuccess sg) c, w3)
                            else Some (Some (new_Error ''Transaction confirmation timed out''),
                                       c, w3)))))"

text \<open>The message the \<open>catch\<close> block of this variant puts into \<open>error\<close>.\<close>

definition errorMessage_confirm :: "js_error \<Rightarrow> string" where
  "errorMessage_confirm err =
     (if isSendTransactionError err then
        js_join newline
          [''Error: '' @ message err,
           ''Logs: '' @
             (let joined = (case logs err of None \<Rightarrow> [] | Some ls \<Rightarrow> js_join newline ls)
              in if joined = [] then ''No logs available'' else joined)]
      else ''Transaction failed'')"

definition handleSend_confirm ::
  "nat \<Rightarrow> lib \<Rightarrow> string \<Rightarrow> string \<Rightarrow> component \<Rightarrow> world \<Rightarrow> (component \<times> world) option" where
  "handleSend_confirm fuel lb toAddress sendAmount c w =
     (case publicKey c of
        None \<Rightarrow> Some (raise_alert (Alert ''Please connect your wallet.'') c, w)
      | Some pk \<Rightarrow>
          (let amount = parseFloat lb sendAmount in
           if isNaN amount \<or> le_zero amount
           then Some (raise_alert (Alert ''Please enter a valid amount greater than 0.'') c, w)
           else if \<not> PublicKey_valid lb toAddress
           then Some (raise_alert (Alert ''Invalid recipient address.'') c, w)
           else
             (case send_try_confirm fuel lb pk toAddress amount
                     (c\<lparr>loading := True, error := None\<rparr>) w of
                None \<Rightarrow> None
              | Some (thrown, c1, w1) \<Rightarrow>
                  (let c2 = (case thrown of
                               None \<Rightarrow> c1
                             | Some err \<Rightarrow> c1\<lparr>error := Some (errorMessage_confirm err)\<rparr>)
                   in Some (c2\<lparr>loading := False\<rparr>, w1)))))"

subsection \<open>\<open>handleSend\<close> of the variant with a bounded number of retries\<close>

text \<open>One pass through the inner \<open>try\<close> block.\<close>

definition send_attempt ::
  "lib \<Rightarrow> string \<Rightarrow> string \<Rightarrow> js_number \<Rightarrow> component \<Rightarrow> world \<Rightarrow> js_error option \<times> component \<times> world" where
  "send_attempt lb pk to amount c w =
     (case getLatestBlockhash w of
        (Inl err, w1) \<Rightarrow> (Some err, c, w1)
      | (Inr (minContextSlot, l), w1) \<Rightarrow>
          (let tx = \<lparr>feePayer = Some pk, recentBlockhash = Some (blockhash l), fromPubkey = pk,
                      toPubkey = to, lamports = lamports_of_amount amount\<rparr>
           in case build_error lb tx of
                Some err \<Rightarrow> (Some err, c, w1)
              | None \<Rightarrow>
                  (case sendTransaction tx (Some minContextSlot) w1 of
                     (Inl err, w2) \<Rightarrow> (Some err, c, w2)
                   | (Inr sg, w2) \<Rightarrow>
                       (case confirmTransaction sg (Some l) (Some minContextSlot) w2 of
                          (Inl err, w3) \<Rightarrow> (Some err, c, w3)
                        | (Inr value_err, w3) \<Rightarrow>
                            if value_err
                            then (Some (new_Error ''Transaction confirmation failed''), c, w3)
                            else (None, raise_alert (AlertSent amount to) c, w3)))))"

text \<open>
  \<open>while (retries > 0)\<close>, by recursion on \<open>retries\<close>. With no retries left the loop is
  left by its condition and nothing is thrown; a pass that succeeds returns from the
  handler, and nothing is thrown either.
\<close>

fun send_attempts ::
  "nat \<Rightarrow> lib \<Rightarrow> string \<Rightarrow> string \<Rightarrow> js_number \<Rightarrow> component \<Rightarrow> world \<Rightarrow> js_error option \<times> component \<times> world" where
  "send_attempts 0 lb pk to amount c w = (None, c, w)"
| "send_attempts (Suc retries) lb pk to amount c w =
     (case send_attempt lb pk to amount c w of
        (None, c1, w1) \<Rightarrow> (None, c1, w1)
      | (Some err, c1, w1) \<Rightarrow>
          if str_includes (message err) ''Blockhash'' \<and> 0 < Suc retries
          then send_attempts retries lb pk to amount c1 (sleep 1000 w1)
          else (Some err, c1, w1))"

definition errorMessage_bounded :: "js_error \<Rightarrow> string" where
  "errorMessage_bounded err =
     (if isSendTransactionError err then
        js_join newline
          ((''Transaction failed: '' @ message err) #
           (case logs err of None \<Rightarrow> [] | Some ls \<Rightarrow> ls))
      else message err)"

definition handleSend_bounded ::
  "lib \<Rightarrow> string option \<Rightarrow> string option \<Rightarrow> component \<Rightarrow> world \<Rightarrow> component \<times> world" where
  "handleSend_bounded lb to_prompt amountInput c w =
     (case publicKey c of
        None \<Rightarrow> (raise_alert (Alert ''Please connect your wallet first.'') c, w)
      | Some pk \<Rightarrow>
          (case to_prompt of
             None \<Rightarrow> (raise_alert (Alert ''Recipient address required'') c, w)
           | Some to \<Rightarrow>
               if to = [] then (raise_alert (Alert ''Recipient address required'') c, w)
               else if \<not> PublicKey_valid lb to
               then (raise_alert (Alert ''Invalid recipient address'') c, w)
               else
                 (let amount = parseFloat_prompt lb amountInput in
                  if isNaN amount \<or> le_zero amount
                  then (raise_alert (Alert ''Invalid amount > 0 required'') c, w)
                  else
                    (case send_attempts 3 lb pk to amount (c\<lparr>loading := True, error := None\<rparr>) w of
                       (thrown, c1, w1) \<Rightarrow>
                         (let c2 = (case thrown of
                                      None \<Rightarrow> c1
                                    | Some err \<Rightarrow>
                                        raise_alert (AlertFailed (errorMessage_bounded err))
                                          (c1\<lparr>error := Some (errorMessage_bounded err)\<rparr>))
                          in (c2\<lparr>loading := False\<rparr>, w1))))))"

section \<open>Message signing\<close>

text \<open>\<open>String.prototype.trim\<close>, for the white space of the ASCII range.\<close>

definition is_space :: "char \<Rightarrow> bool" where
  "is_space ch \<longleftrightarrow> ch \<in> set [CHR 0x09, CHR 0x0A, CHR 0x0B, CHR 0x0C, CHR 0x0D, CHR '' '']"

definition trim :: "string \<Rightarrow> string" where
  "trim s = rev (dropWhile is_space (rev (dropWhile is_space s)))"

text \<open>\<open>new TextEncoder().encode(message)\<close>: the characters of a string are its bytes here.\<close>

definition encode :: "string \<Rightarrow> byte list" where
  "encode s = map (\<lambda>ch. of_nat (of_char ch)) s"

definition hex_alphabet :: string where
  "hex_alphabet = ''0123456789abcdef''"

text \<open>\<open>n.toString(16)\<close> for a non-negative integer.\<close>

fun toString16 :: "nat \<Rightarrow> string" where
  "toString16 n =
     (if n < 16 then [hex_alphabet ! n]
      else toString16 (n div 16) @ [hex_alphabet ! (n mod 16)])"

declare toString16.simps [simp del]

text \<open>\<open>s.padStart(targetLength, pad)\<close> for a pad of one character.\<close>

definition padStart :: "nat \<Rightarrow> char \<Rightarrow> string \<Rightarrow> string" where
  "padStart targetLength pad s = replicate (targetLength - length s) pad @ s"

text \<open>
  \<open>Array.from(signature).map(b => b.toString(16).padStart(2, '0')).join('')\<close>
\<close>

definition signatureHex :: "byte list \<Rightarrow> string" where
  "signatureHex sg = concat (map (\<lambda>b. padStart 2 (CHR ''0'') (toString16 (unat b))) sg)"

text \<open>
  Modelled from the spec: \<open>Buffer.from(sig).toString("hex")\<close>. \<open>Buffer\<close> comes from the
  runtime, not from this repository; the claim calls it the Buffer-based hex encoding.
  It is taken as that encoding is documented: every byte gives two characters of the
  alphabet \<open>0123456789abcdef\<close>, the high four bits first.
\<close>

definition Buffer_toString_hex :: "byte list \<Rightarrow> string" where
  "Buffer_toString_hex bytes =
     concat (map (\<lambda>b. [hex_alphabet ! unat (drop_bit 4 b), hex_alphabet ! unat (take_bit 4 b)]) bytes)"

text \<open>
  \<open>handleSignMessage\<close>; the variants differ in the hex encoding and in the text put
  into \<open>error\<close>, which are the first two arguments.
\<close>

definition handleSignMessage_with ::
  "(byte list \<Rightarrow> string) \<Rightarrow> (js_error \<Rightarrow> string) \<Rightarrow> string \<Rightarrow> string \<Rightarrow> string \<Rightarrow>
     component \<Rightarrow> world \<Rightarrow> component \<times> world" where
  "handleSignMessage_with hex failure connect_text empty_text msg c w =
     (case publicKey c of
        None \<Rightarrow> (raise_alert (Alert connect_text) c, w)
      | Some pk \<Rightarrow>
          if trim msg = [] then (raise_alert (Alert empty_text) c, w)
          else
            (let c0 = c\<lparr>loading := True, error := None\<rparr>
             in case signMessage (encode msg) w of
                  (Inr sg, w1) \<Rightarrow> ((c0\<lparr>signature := hex sg\<rparr>)\<lparr>loading := False\<rparr>, w1)
                | (Inl err, w1) \<Rightarrow> ((c0\<lparr>error := Some (failure err)\<rparr>)\<lparr>loading := False\<rparr>, w1)))"

text \<open>The variant with the manual hex encoding.\<close>

definition handleSignMessage_manual :: "string \<Rightarrow> component \<Rightarrow> world \<Rightarrow> component \<times> world" where
  "handleSignMessage_manual =
     handleSignMessage_with signatureHex (\<lambda>err. ''Failed to sign message'')
       ''Please connect your wallet first.'' ''Please enter a message to sign''"

text \<open>The two variants with \<open>Buffer\<close>.\<close>

definition handleSignMessage_Buffer :: "string \<Rightarrow> component \<Rightarrow> world \<Rightarrow> component \<times> world" where
  "handleSignMessage_Buffer =
     handleSignMessage_with Buffer_toString_hex (\<lambda>err. ''Signing failed: '' @ message err)
       ''Connect wallet first'' ''Enter message to sign''"


section \<open>The checks before \<open>setLoading(true)\<close>\<close>

text \<open>
  The conditions under which a handler returns from one of its opening checks,
  before it sets \<open>loading\<close>.
\<close>

definition airdrop_returns_early :: "lib \<Rightarrow> string \<Rightarrow> component \<Rightarrow> bool" where
  "airdrop_returns_early lb amountValue c \<longleftrightarrow>
     publicKey c = None \<or> isNaN (parseFloat lb amountValue) \<or> le_zero (parseFloat lb amountValue)"

definition recipient_rejected :: "lib \<Rightarrow> string option \<Rightarrow> bool" where
  "recipient_rejected lb to_prompt \<longleftrightarrow>
     (case to_prompt of None \<Rightarrow> True | Some to \<Rightarrow> to = [] \<or> \<not> PublicKey_valid lb to)"

definition amount_rejected :: "js_number \<Rightarrow> bool" where
  "amount_rejected amount \<longleftrightarrow> isNaN amount \<or> le_zero amount"

definition send_returns_early :: "lib \<Rightarrow> string option \<Rightarrow> string option \<Rightarrow> component \<Rightarrow> bool" where
  "send_returns_early lb to_prompt amountInput c \<longleftrightarrow>
     publicKey c = None \<or> recipient_rejected lb to_prompt \<or>
     amount_rejected (parseFloat_prompt lb amountInput)"

definition send_confirm_returns_early :: "lib \<Rightarrow> string \<Rightarrow> string \<Rightarrow> component \<Rightarrow> bool" where
  "send_confirm_returns_early lb toAddress sendAmount c \<longleftrightarrow>
     publicKey c = None \<or> amount_rejected (parseFloat lb sendAmount) \<or>
     \<not> PublicKey_valid lb toAddress"

definition sign_returns_early :: "string \<Rightarrow> component \<Rightarrow> bool" where
  "sign_returns_early msg c \<longleftrightarrow> publicKey c = None \<or> trim msg = []"

section \<open>Reading a run\<close>

text \<open>When a call was issued, and the lease a confirmation call was given.\<close>

fun issued_at :: "rpc_call \<Rightarrow> nat" where
  "issued_at (GetBlockhash t) = t"
| "issued_at (SendTransaction t _ _) = t"
| "issued_at (ConfirmTransaction t _ _ _) = t"
| "issued_at (RequestAirdrop t _ _) = t"
| "issued_at (GetBalance t _) = t"
| "issued_at (SignMessage t _) = t"

fun lease_used :: "rpc_call \<Rightarrow> lease option" where
  "lease_used (ConfirmTransaction _ _ l _) = l"
| "lease_used _ = None"

text \<open>The reply makes the \<open>try\<close> block throw an error that the helper takes for an expired blockhash.\<close>

definition expired_reply :: "js_error + bool \<Rightarrow> bool" where
  "expired_reply reply =
     (case thrown_by_confirmation reply of None \<Rightarrow> False | Some err \<Rightarrow> blockhash_expired err)"

text \<open>The lease the \<open>k\<close>-th blockhash request returns, if it returns one.\<close>

definition fetched_lease :: "world \<Rightarrow> nat \<Rightarrow> lease option" where
  "fetched_lease w k = (case snd (on_blockhash w k) of Inl _ \<Rightarrow> None | Inr (_, l) \<Rightarrow> Some l)"

text \<open>
  The two phrases of the claims about lease expiry, looked for in the message of an
  error; and a reply of the endpoint to a confirmation request that is a rejection
  with such a message.
\<close>

definition has_expiry_phrase :: "js_error \<Rightarrow> bool" where
  "has_expiry_phrase err \<longleftrightarrow>
     str_includes (message err) ''Blockhash not found'' \<or>
     str_includes (message err) ''blockhash expired''"

definition expiry_rejection :: "js_error + bool \<Rightarrow> bool" where
  "expiry_rejection reply = (case reply of Inl err \<Rightarrow> has_expiry_phrase err | Inr _ \<Rightarrow> False)"


section \<open>Concrete runs\<close>

text \<open>Worlds and leases on which the helper is run below.\<close>

definition lease1 :: lease where
  "lease1 = \<lparr>blockhash = ''H1'', lastValidBlockHeight = 100\<rparr>"

definition lease2 :: lease where
  "lease2 = \<lparr>blockhash = ''H2'', lastValidBlockHeight = 250\<rparr>"

text \<open>A world whose replies are all the same, given by the two replies that matter.\<close>

definition scripted ::
  "(nat \<Rightarrow> nat \<times> (js_error + bool)) \<Rightarrow> (nat \<Rightarrow> nat \<times> (js_error + nat \<times> lease)) \<Rightarrow> world" where
  "scripted confirms fetches =
     \<lparr>clock = 0, calls = [], timers = 0,
      on_blockhash = fetches,
      on_send = (\<lambda>k. (5, Inr ''sig'')),
      on_confirm = confirms,
      on_airdrop = (\<lambda>k. (5, Inr ''sig'')),
      on_balance = (\<lambda>k. (5, Inr 0)),
      on_sign = (\<lambda>k. (5, Inr [])),
      timer_lag = (\<lambda>k. 0)\<rparr>"

text \<open>A wallet that is connected and idle, and stand-ins for the library functions.\<close>

definition connected :: component where
  "connected = \<lparr>publicKey = Some ''payer'', loading = False, error = None, alerts = [],
     balance = None, signature = []\<rparr>"

text \<open>The double nearest to 0.0000000012, which is what \<open>parseFloat\<close> returns for that text.\<close>

definition sub_lamport_amount :: js_number where
  "sub_lamport_amount = js_of_rat (12 / 10000000000)"

text \<open>
  The text \<open>0.000000015\<close> is parsed to the double nearest to \<open>15 / 10 ^ 9\<close>, the value
  shown for a balance of 15 lamports.
\<close>

definition lib0 :: lib where
  "lib0 = \<lparr>parseFloat = (\<lambda>s. if s = ''1'' then Finite 1
                              else if s = ''0.0000000012'' then sub_lamport_amount
                              else if s = ''0.000000015'' then sol_of_lamports 15
                              else if s = ''-1'' then Finite (- 1)
                              else NaN),
           PublicKey_valid = (\<lambda>s. s = ''recipient''),
           build_error = (\<lambda>tx. None)\<rparr>"

definition expires_once :: world where
  "expires_once =
     scripted (\<lambda>k. if k = 0 then (100, Inl (new_Error ''blockhash expired'')) else (100, Inr False))
       (\<lambda>k. (10, Inr (7, lease2)))"

definition always_expired :: world where
  "always_expired =
     scripted (\<lambda>k. (100, Inl (new_Error ''Blockhash not found'')))
       (\<lambda>k. (10, Inr (7, lease2)))"

definition fails_on_chain :: world where
  "fails_on_chain = scripted (\<lambda>k. (100, Inr True)) (\<lambda>k. (10, Inr (7, lease2)))"

definition expires_once_end :: world where
  "expires_once_end =
     expires_once\<lparr>clock := 2210,
       calls := [ConfirmTransaction 0 ''sig'' (Some lease1) None, GetBlockhash 100,
                 ConfirmTransaction 2110 ''sig'' (Some lease2) None],
       timers := 1\<rparr>"

definition always_expired_end :: world where
  "always_expired_end =
     always_expired\<lparr>clock := 6330,
       calls := [ConfirmTransaction 0 ''sig'' (Some lease1) None, GetBlockhash 100,
                 ConfirmTransaction 2110 ''sig'' (Some lease2) None, GetBlockhash 2210,
                 ConfirmTransaction 4220 ''sig'' (Some lease2) None, GetBlockhash 4320],
       timers := 3\<rparr>"

definition fails_on_chain_end :: world where
  "fails_on_chain_end =
     fails_on_chain\<lparr>clock := 100, calls := [ConfirmTransaction 0 ''sig'' (Some lease1) None]\<rparr>"

definition fails_late :: world where
  "fails_late =
     scripted (\<lambda>k. (70000, Inl (new_Error ''Signature has expired: block height exceeded'')))
       (\<lambda>k. (10, Inr (7, lease2)))"

definition fails_late_end :: world where
  "fails_late_end =
     fails_late\<lparr>clock := 70000, calls := [ConfirmTransaction 0 ''sig'' (Some lease1) None]\<rparr>"

definition transfer_of_one :: transaction where
  "transfer_of_one = \<lparr>feePayer = Some ''payer'', recentBlockhash = Some ''H2'',
     fromPubkey = ''payer'', toPubkey = ''recipient'', lamports = Finite 1000000000\<rparr>"

definition send_rejected :: world where
  "send_rejected =
     (scripted (\<lambda>k. (100, Inr False)) (\<lambda>k. (10, Inr (7, lease2))))
       \<lparr>on_send := (\<lambda>k. (5, Inl (JsError ''Transaction simulation failed: Blockhash not found''
                                   True (Some []))))\<rparr>"

definition send_rejected_end :: world where
  "send_rejected_end =
     send_rejected\<lparr>clock := 3045,
       calls := [GetBlockhash 0, SendTransaction 10 transfer_of_one (Some 7),
                 GetBlockhash 1015, SendTransaction 1025 transfer_of_one (Some 7),
                 GetBlockhash 2030, SendTransaction 2040 transfer_of_one (Some 7)],
       timers := 3\<rparr>"

definition fails_on_chain_sent :: world where
  "fails_on_chain_sent =
     fails_on_chain\<lparr>clock := 115,
       calls := [GetBlockhash 0, SendTransaction 10 transfer_of_one None,
                 ConfirmTransaction 15 ''sig'' (Some lease2) None]\<rparr>"

definition confirms_at_once :: world where
  "confirms_at_once = scripted (\<lambda>k. (100, Inr False)) (\<lambda>k. (10, Inr (7, lease2)))"

definition confirms_at_once_end :: world where
  "confirms_at_once_end =
     confirms_at_once\<lparr>clock := 115,
       calls := [GetBlockhash 0,
                 SendTransaction 10 (transfer_of_one\<lparr>lamports := Finite 1\<rparr>) None,
                 ConfirmTransaction 15 ''sig'' (Some lease2) None]\<rparr>"

text \<open>
  The worlds the first two calls of the helper leave behind in \<open>expires_once\<close>: after
  the rejected confirmation, and after the blockhash request.
\<close>

definition expires_once_polled :: world where
  "expires_once_polled = issue (ConfirmTransaction 0 ''sig'' (Some lease1) None) 100 expires_once"

definition expires_once_fetched :: world where
  "expires_once_fetched = issue (GetBlockhash 100) 10 expires_once_polled"

text \<open>An expired blockhash, and then a blockhash request that is rejected too.\<close>

definition fetch_fails :: world where
  "fetch_fails =
     scripted (\<lambda>k. (100, Inl (new_Error ''Blockhash not found'')))
       (\<lambda>k. (10, Inl (new_Error ''Network request failed'')))"

definition fetch_fails_polled :: world where
  "fetch_fails_polled = issue (ConfirmTransaction 0 ''sig'' (Some lease1) None) 100 fetch_fails"

definition fetch_fails_end :: world where
  "fetch_fails_end =
     fetch_fails\<lparr>clock := 110,
       calls := [ConfirmTransaction 0 ''sig'' (Some lease1) None, GetBlockhash 100]\<rparr>"

text \<open>A confirmation request rejected for a reason that has nothing to do with the lease.\<close>

definition network_fails :: world where
  "network_fails =
     scripted (\<lambda>k. (100, Inl (new_Error ''Network request failed'')))
       (\<lambda>k. (10, Inr (7, lease2)))"

definition network_fails_end :: world where
  "network_fails_end =
     network_fails\<lparr>clock := 100, calls := [ConfirmTransaction 0 ''sig'' (Some lease1) None]\<rparr>"

text \<open>
  The worlds between the calls of one pass of the bounded loop for a transfer of 1 SOL,
  started at time 0.
\<close>

definition fetched_at_0 :: "world \<Rightarrow> world" where
  "fetched_at_0 w = issue (GetBlockhash 0) 10 w"

definition sent_at_10 :: "world \<Rightarrow> world" where
  "sent_at_10 w = issue (SendTransaction 10 transfer_of_one (Some 7)) 5 (fetched_at_0 w)"

definition polled_at_15 :: "world \<Rightarrow> world" where
  "polled_at_15 w =
     issue (ConfirmTransaction 15 ''sig'' (Some lease2) (Some 7)) 100 (sent_at_10 w)"

text \<open>The end of the bounded loop in \<open>expires_once\<close>: one pass, no timer.\<close>

definition expires_once_given_up :: world where
  "expires_once_given_up =
     expires_once\<lparr>clock := 115,
       calls := [GetBlockhash 0, SendTransaction 10 transfer_of_one (Some 7),
                 ConfirmTransaction 15 ''sig'' (Some lease2) (Some 7)]\<rparr>"

text \<open>An account that holds 15 lamports, and its balance read once.\<close>

definition holds_15 :: world where
  "holds_15 = confirms_at_once\<lparr>on_balance := (\<lambda>k. (5, Inr 15))\<rparr>"

definition holds_15_end :: world where
  "holds_15_end = holds_15\<lparr>clock := 5, calls := [GetBalance 0 ''payer'']\<rparr>"

text \<open>
  A transfer of 15 lamports; the run that submits it through the variant with
  \<open>confirmTransactionWithRetry\<close>, and a transfer of 1 SOL through \<open>src/App.jsx\<close>.
\<close>

definition transfer_of_15 :: transaction where
  "transfer_of_15 = transfer_of_one\<lparr>lamports := Finite 15\<rparr>"

definition sends_15_end :: world where
  "sends_15_end =
     confirms_at_once\<lparr>clock := 115,
       calls := [GetBlockhash 0, SendTransaction 10 transfer_of_15 None,
                 ConfirmTransaction 15 ''sig'' (Some lease2) None]\<rparr>"

definition sends_one_end :: world where
  "sends_one_end =
     confirms_at_once\<lparr>clock := 115,
       calls := [GetBlockhash 0, SendTransaction 10 transfer_of_one None,
                 ConfirmTransaction 15 ''sig'' None None]\<rparr>"

section \<open>Facts about doubles\<close>

lemma round_ties_even_error: "\<bar>of_int (round_ties_even y) - y\<bar> \<le> 1 / 2"
proof -
  have "of_int \<lfloor>y\<rfloor> \<le> y" "y < of_int \<lfloor>y\<rfloor> + 1" by linarith+
  then show ?thesis
    by (auto simp: round_ties_even_def Let_def)
qed

lemma round_ties_even_unique:
  assumes "\<bar>y - of_int n\<bar> < 1 / 2"
  shows "round_ties_even y = n"
proof (cases "of_int n \<le> y")
  case True
  with assms have "\<lfloor>y\<rfloor> = n" by linarith
  with assms True show ?thesis by (simp add: round_ties_even_def Let_def)
next
  case False
  with assms have f: "\<lfloor>y\<rfloor> = n - 1" by linarith
  from assms False have "1 / 2 < y - of_int (n - 1)" by simp
  with f show ?thesis by (simp add: round_ties_even_def Let_def)
qed

lemma round_ties_even_of_int [simp]: "round_ties_even (of_int n) = n"
  by (rule round_ties_even_unique) simp

lemma bitlen_powi_bounds:
  assumes "0 < p"
  shows "(2::rat) powi (bitlen p - 1) \<le> of_int p" "of_int p < (2::rat) powi bitlen p"
proof -
  from assms have b1: "1 \<le> bitlen p"
    using bitlen_eq_zero_iff [of p] bitlen_nonneg [of p] by linarith
  from bitlen_bounds [OF assms]
  have lo: "2 ^ nat (bitlen p - 1) \<le> p" and hi: "p < 2 ^ nat (bitlen p)" by simp_all
  from lo have "(of_int (2 ^ nat (bitlen p - 1)) :: rat) \<le> of_int p"
    by (simp only: of_int_le_iff)
  with b1 show "(2::rat) powi (bitlen p - 1) \<le> of_int p"
    by (simp add: power_int_nonneg_exp)
  from hi have "(of_int p :: rat) < of_int (2 ^ nat (bitlen p))"
    by (simp only: of_int_less_iff)
  with b1 show "of_int p < (2::rat) powi bitlen p"
    by (simp add: power_int_nonneg_exp)
qed

lemma ilog2_bounds:
  assumes "x \<noteq> 0"
  shows "2 powi ilog2 x \<le> \<bar>x\<bar>" "\<bar>x\<bar> < 2 powi (ilog2 x + 1)"
proof -
  obtain p q where pq: "quotient_of \<bar>x\<bar> = (p, q)" by (cases "quotient_of \<bar>x\<bar>")
  then have q: "0 < q" and x: "\<bar>x\<bar> = of_int p / of_int q"
    by (auto dest: quotient_of_denom_pos quotient_of_div)
  from assms have "0 < \<bar>x\<bar>" by simp
  with x q have p: "0 < p" by (simp add: zero_less_divide_iff)
  let ?k = "bitlen p - bitlen q"
  note bp = bitlen_powi_bounds [OF p] and bq = bitlen_powi_bounds [OF q]
  have qpos: "(0::rat) < of_int q" using q by simp
  have "\<bar>x\<bar> < 2 powi bitlen p / of_int q"
    unfolding x using bp(2) qpos by (simp add: divide_strict_right_mono)
  also have "\<dots> \<le> 2 powi bitlen p / 2 powi (bitlen q - 1)"
    using bq(1) qpos by (intro divide_left_mono mult_pos_pos) simp_all
  also have "\<dots> = 2 powi (?k + 1)"
    by (simp add: power_int_diff [symmetric] algebra_simps)
  finally have hi: "\<bar>x\<bar> < 2 powi (?k + 1)" .
  have "2 powi (?k - 1) = 2 powi (bitlen p - 1) / (2 powi bitlen q :: rat)"
    by (simp add: power_int_diff [symmetric] algebra_simps)
  also have "\<dots> \<le> of_int p / 2 powi bitlen q"
    using bp(1) by (simp add: divide_right_mono)
  also have "\<dots> < of_int p / of_int q"
    using bq(2) p qpos by (intro divide_strict_left_mono) simp_all
  finally have lo: "2 powi (?k - 1) < \<bar>x\<bar>" unfolding x .
  have il: "ilog2 x = (if 2 powi ?k \<le> \<bar>x\<bar> then ?k else ?k - 1)"
    by (simp add: ilog2_def pq Let_def)
  show "2 powi ilog2 x \<le> \<bar>x\<bar>" using lo by (simp add: il)
  show "\<bar>x\<bar> < 2 powi (ilog2 x + 1)" using hi by (auto simp: il)
qed

lemma ilog2_unique:
  assumes "2 powi k \<le> \<bar>x\<bar>" "\<bar>x\<bar> < 2 powi (k + 1)"
  shows "ilog2 x = k"
proof -
  from assms(1) have nz: "x \<noteq> 0"
    by (metis abs_zero not_le zero_less_numeral zero_less_power_int)
  note b = ilog2_bounds [OF nz]
  have "(2::rat) powi ilog2 x < 2 powi (k + 1)" using b(1) assms(2) by simp
  then have "ilog2 x < k + 1"
    by (metis not_le one_less_numeral_iff power_int_increasing semiring_norm(76) less_imp_le not_less)
  moreover have "(2::rat) powi k < 2 powi (ilog2 x + 1)" using b(2) assms(1) by simp
  then have "k < ilog2 x + 1"
    by (metis not_le one_less_numeral_iff power_int_increasing semiring_norm(76) less_imp_le not_less)
  ultimately show ?thesis by simp
qed

lemma powi2_less_iff [simp]: "(2::rat) powi a < 2 powi b \<longleftrightarrow> a < b"
proof
  assume l: "(2::rat) powi a < 2 powi b"
  show "a < b"
  proof (rule ccontr)
    assume "\<not> a < b"
    then have "b \<le> a" by simp
    then have "(2::rat) powi b \<le> 2 powi a" by (intro power_int_increasing) simp_all
    with l show False by simp
  qed
next
  assume "a < b"
  then show "(2::rat) powi a < 2 powi b" by (intro power_int_strict_increasing) simp_all
qed

lemma powi2_le_iff [simp]: "(2::rat) powi a \<le> 2 powi b \<longleftrightarrow> a \<le> b"
  using powi2_less_iff [of b a] by (simp add: not_less [symmetric] del: powi2_less_iff)

lemma ilog2_ge:
  assumes "2 powi k \<le> \<bar>x\<bar>"
  shows "k \<le> ilog2 x"
proof -
  from assms have "0 < \<bar>x\<bar>" by (rule less_le_trans [rotated]) simp
  then have "x \<noteq> 0" by simp
  from assms ilog2_bounds(2) [OF this] have "(2::rat) powi k < 2 powi (ilog2 x + 1)"
    by (rule le_less_trans)
  then show ?thesis by simp
qed

lemma ilog2_less:
  assumes "x \<noteq> 0" "\<bar>x\<bar> < 2 powi k"
  shows "ilog2 x < k"
proof -
  from ilog2_bounds(1) [OF assms(1)] assms(2) have "(2::rat) powi ilog2 x < 2 powi k"
    by (rule le_less_trans)
  then show ?thesis by simp
qed

lemma binary64_error:
  assumes "x \<noteq> 0" "- 1022 \<le> ilog2 x"
  shows "\<bar>binary64 x - x\<bar> \<le> \<bar>x\<bar> / 2 ^ 53"
proof -
  let ?e = "ilog2 x - 52"
  let ?s = "(2::rat) powi ?e"
  have s: "0 < ?s" by simp
  from assms(2) have m: "max ?e (- 1074) = ?e" by simp
  have b: "binary64 x = of_int (round_ties_even (x / ?s)) * ?s"
    using assms(1) by (simp add: binary64_def m Let_def)
  have "binary64 x - x = (of_int (round_ties_even (x / ?s)) - x / ?s) * ?s"
    using s by (simp add: b left_diff_distrib)
  then have "\<bar>binary64 x - x\<bar> = \<bar>of_int (round_ties_even (x / ?s)) - x / ?s\<bar> * \<bar>?s\<bar>"
    by (simp only: abs_mult)
  also have "\<bar>?s\<bar> = ?s" using s by simp
  finally have "\<bar>binary64 x - x\<bar> = \<bar>of_int (round_ties_even (x / ?s)) - x / ?s\<bar> * ?s" .
  also have "\<dots> \<le> 1 / 2 * ?s"
    using s round_ties_even_error [of "x / ?s"] by (intro mult_right_mono) simp_all
  also have "1 / 2 * ?s = 2 powi ilog2 x / 2 ^ 53"
    by (simp add: power_int_diff)
  also have "\<dots> \<le> \<bar>x\<bar> / 2 ^ 53"
    using ilog2_bounds(1) [OF assms(1)] by (simp add: divide_right_mono)
  finally show ?thesis .
qed

lemma binary64_eval:
  assumes "2 powi k \<le> \<bar>x\<bar>" "\<bar>x\<bar> < 2 powi (k + 1)" "- 1022 \<le> k"
    and "\<bar>x / 2 powi (k - 52) - of_int n\<bar> < 1 / 2"
  shows "binary64 x = of_int n * 2 powi (k - 52)"
proof -
  have il: "ilog2 x = k" using assms(1,2) by (rule ilog2_unique)
  from assms(1) have "0 < \<bar>x\<bar>" by (rule less_le_trans [rotated]) simp
  then have nz: "x \<noteq> 0" by simp
  from assms(3) have m: "max (k - 52) (- 1074) = k - 52" by simp
  show ?thesis
    using nz round_ties_even_unique [OF assms(4)]
    by (simp add: binary64_def il m Let_def)
qed

lemma binary64_of_int:
  assumes "\<bar>n\<bar> < 2 ^ 53"
  shows "binary64 (of_int n) = of_int n"
proof (cases "n = 0")
  case True
  then show ?thesis by (simp add: binary64_def)
next
  case False
  let ?x = "of_int n :: rat"
  have nz: "?x \<noteq> 0" using False by simp
  have "\<bar>?x\<bar> < 2 powi 53"
  proof -
    from assms have "(of_int \<bar>n\<bar> :: rat) < of_int (2 ^ 53)" by (simp only: of_int_less_iff)
    then show ?thesis by simp
  qed
  from ilog2_less [OF nz this] have hi: "ilog2 ?x \<le> 52" by simp
  have "1 \<le> \<bar>n\<bar>" using False by simp
  then have "(of_int 1 :: rat) \<le> of_int \<bar>n\<bar>" by (simp only: of_int_le_iff)
  then have "(2::rat) powi 0 \<le> \<bar>?x\<bar>" by simp
  from ilog2_ge [OF this] have lo: "0 \<le> ilog2 ?x" .
  let ?e = "ilog2 ?x - 52"
  from lo have m: "max ?e (- 1074) = ?e" by simp
  have "?x / 2 powi ?e = ?x * 2 powi (- ?e)"
    by (simp only: power_int_minus divide_inverse inverse_inverse_eq)
  also have "\<dots> = of_int (n * 2 ^ nat (- ?e))"
    using hi by (simp add: power_int_nonneg_exp)
  finally have "round_ties_even (?x / 2 powi ?e) = n * 2 ^ nat (- ?e)"
    by (simp only: round_ties_even_of_int)
  then have "binary64 ?x = of_int (n * 2 ^ nat (- ?e)) * 2 powi ?e"
    using nz by (simp add: binary64_def m Let_def)
  also have "\<dots> = ?x * (2 powi (- ?e) * 2 powi ?e)"
    using hi by (simp add: power_int_nonneg_exp)
  finally have "binary64 ?x = ?x * (2 powi (- ?e) * 2 powi ?e)" .
  moreover have "2 powi (- ?e) * 2 powi ?e = (1::rat)"
    using power_int_add [of "2::rat" "- ?e" ?e] by simp
  ultimately show ?thesis by (simp only: mult_1_right)
qed

lemma binary64_near:
  assumes "0 < x" "2 powi (- 1022) \<le> x"
  shows "x - x / 2 ^ 53 \<le> binary64 x" "binary64 x \<le> x + x / 2 ^ 53"
proof -
  from assms have nz: "x \<noteq> 0" by simp
  from assms have "2 powi (- 1022) \<le> \<bar>x\<bar>" by simp
  from ilog2_ge [OF this] binary64_error [OF nz]
  have "\<bar>binary64 x - x\<bar> \<le> \<bar>x\<bar> / 2 ^ 53" by simp
  moreover from assms(1) have "\<bar>x\<bar> = x" by simp
  ultimately have e: "\<bar>binary64 x - x\<bar> \<le> x / 2 ^ 53" by (simp only:)
  from e show "x - x / 2 ^ 53 \<le> binary64 x" by linarith
  from e show "binary64 x \<le> x + x / 2 ^ 53" by linarith
qed

lemma js_of_rat_Finite:
  assumes "\<bar>binary64 x\<bar> < 2 ^ 1024"
  shows "js_of_rat x = Finite (binary64 x)"
  using assms by (auto simp: js_of_rat_def Let_def abs_less_iff)

lemma small_powi: "(2::rat) powi (- 1022) \<le> 1 / 2 ^ 31"
proof -
  have "(2::rat) powi (- 1022) \<le> 2 powi (- 31)" by (simp del: power_int_numeral_neg_numeral)
  then show ?thesis by (simp add: power_int_minus_divide)
qed

lemma round_trip:
  assumes "0 < b" "b \<le> 2 ^ 50"
  shows "Math_round (times_LAMPORTS_PER_SOL (sol_of_lamports b)) = Finite (of_nat b)"
proof -
  let ?B = "of_nat b :: rat"
  have B: "1 \<le> ?B" "?B \<le> 2 ^ 50"
  proof -
    from assms(1) have "1 \<le> b" by simp
    then show "1 \<le> ?B" by (metis of_nat_1 of_nat_le_iff)
    from assms(2) have "(of_nat b :: rat) \<le> of_nat (2 ^ 50)" by (simp only: of_nat_le_iff)
    then show "?B \<le> 2 ^ 50" by simp
  qed
  have "binary64 ?B = ?B"
  proof -
    have "\<bar>int b\<bar> < 2 ^ 53" using assms(2) by simp
    from binary64_of_int [OF this] show ?thesis by simp
  qed
  then have s0: "js_of_rat ?B = Finite ?B"
    using B by (simp add: js_of_rat_def)
  let ?x1 = "binary64 (?B / LAMPORTS_PER_SOL)"
  have q: "0 < ?B / LAMPORTS_PER_SOL" "2 powi (- 1022) \<le> ?B / LAMPORTS_PER_SOL"
    using B small_powi by (simp_all add: LAMPORTS_PER_SOL_def field_simps)
  note n1 = binary64_near [OF q]
  have x1up: "?x1 < 2 ^ 1024" "0 < ?x1"
    using n1 B by (simp_all add: LAMPORTS_PER_SOL_def field_simps)
  then have s1: "sol_of_lamports b = Finite ?x1"
    by (simp add: sol_of_lamports_def s0 js_of_rat_Finite)
  let ?y = "?x1 * LAMPORTS_PER_SOL"
  have y: "?B - ?B / 2 ^ 53 \<le> ?y" "?y \<le> ?B + ?B / 2 ^ 53"
    using n1 by (simp_all add: LAMPORTS_PER_SOL_def field_simps)
  have ypos: "0 < ?y" "2 powi (- 1022) \<le> ?y"
    using y(1) B small_powi by (simp_all add: field_simps)
  note n2 = binary64_near [OF ypos]
  let ?x2 = "binary64 ?y"
  have close: "?B - 3 / 8 \<le> ?x2" "?x2 \<le> ?B + 3 / 8"
    using n2 y B by (simp_all add: field_simps)
  then have "\<bar>?x2\<bar> < 2 ^ 1024" using B by (simp add: abs_less_iff)
  then have s2: "times_LAMPORTS_PER_SOL (sol_of_lamports b) = Finite ?x2"
    by (simp add: s1 js_of_rat_Finite)
  have "\<lfloor>?x2 + 1 / 2\<rfloor> = int b"
    using close by (simp add: floor_eq_iff)
  then show ?thesis by (simp add: s2)
qed

lemma sol_of_lamports_positive:
  assumes "0 < b" "b \<le> 2 ^ 50"
  shows "\<exists>q. sol_of_lamports b = Finite q \<and> 0 < q"
proof -
  let ?B = "of_nat b :: rat"
  have B: "1 \<le> ?B" "?B \<le> 2 ^ 50"
  proof -
    from assms(1) have "1 \<le> b" by simp
    then show "1 \<le> ?B" by (metis of_nat_1 of_nat_le_iff)
    from assms(2) have "(of_nat b :: rat) \<le> of_nat (2 ^ 50)" by (simp only: of_nat_le_iff)
    then show "?B \<le> 2 ^ 50" by simp
  qed
  have "binary64 ?B = ?B"
  proof -
    have "\<bar>int b\<bar> < 2 ^ 53" using assms(2) by simp
    from binary64_of_int [OF this] show ?thesis by simp
  qed
  then have s0: "js_of_rat ?B = Finite ?B"
    using B by (simp add: js_of_rat_def)
  let ?x1 = "binary64 (?B / LAMPORTS_PER_SOL)"
  have q: "0 < ?B / LAMPORTS_PER_SOL" "2 powi (- 1022) \<le> ?B / LAMPORTS_PER_SOL"
    using B small_powi by (simp_all add: LAMPORTS_PER_SOL_def field_simps)
  note n1 = binary64_near [OF q]
  have x1up: "?x1 < 2 ^ 1024" "0 < ?x1"
    using n1 B by (simp_all add: LAMPORTS_PER_SOL_def field_simps)
  then have "sol_of_lamports b = Finite ?x1"
    by (simp add: sol_of_lamports_def s0 js_of_rat_Finite)
  with x1up(2) show ?thesis by blast
qed

lemma Math_round_fixed:
  "Math_round (Finite q) = Finite q \<longleftrightarrow> q \<in> \<int>"
proof
  assume "Math_round (Finite q) = Finite q"
  then have "q = of_int \<lfloor>q + 1 / 2\<rfloor>" by simp
  then show "q \<in> \<int>" by (metis Ints_of_int)
next
  assume "q \<in> \<int>"
  then obtain n :: int where "q = of_int n" by (auto elim: Ints_cases)
  then show "Math_round (Finite q) = Finite q" by (simp add: floor_eq_iff)
qed

text \<open>
  Values of the runtime, reproduced: \<open>0.0000000075 * 1e9\<close> is \<open>7.499999999999999\<close> and
  rounds to 7; \<open>8.2 * 1e9\<close> is \<open>8199999999.999999\<close>, not a whole number; \<open>15 / 1e9 * 1e9\<close>
  is \<open>14.999999999999998\<close>.
\<close>

lemma js_of_rat_eq:
  assumes "binary64 x = r" "\<bar>r\<bar> < 2 ^ 1024"
  shows "js_of_rat x = Finite r"
  using assms by (auto simp: js_of_rat_def Let_def abs_less_iff)

lemma not_whole:
  assumes "of_int n < x" "x < of_int (n + 1)"
  shows "(x::rat) \<notin> \<int>"
proof
  assume "x \<in> \<int>"
  then obtain m :: int where m: "x = of_int m" by (auto elim: Ints_cases)
  with assms have "n < m" "m < n + 1" by (simp_all only: of_int_less_iff)
  then show False by simp
qed

lemma binary64_75: "binary64 (75 / 10000000000) = 4533471823554859 / 2 ^ 79"
  using binary64_eval [of "- 27" "75 / 10000000000" 4533471823554859] by simp

lemma js_75: "js_of_rat (75 / 10000000000) = Finite (4533471823554859 / 2 ^ 79)"
  by (rule js_of_rat_eq [OF binary64_75]) simp

lemma times_75:
  "times_LAMPORTS_PER_SOL (js_of_rat (75 / 10000000000)) = Finite (8444249301319679 / 2 ^ 50)"
proof -
  have "binary64 (4533471823554859 / 2 ^ 79 * LAMPORTS_PER_SOL) = 8444249301319679 / 2 ^ 50"
    unfolding LAMPORTS_PER_SOL_def
    using binary64_eval [of 2 "4533471823554859 / 2 ^ 79 * 1000000000" 8444249301319679] by simp
  then have "js_of_rat (4533471823554859 / 2 ^ 79 * LAMPORTS_PER_SOL) = Finite (8444249301319679 / 2 ^ 50)"
    by (rule js_of_rat_eq) simp
  then show ?thesis by (simp only: js_75 times_LAMPORTS_PER_SOL.simps)
qed

lemma round_75: "Math_round (times_LAMPORTS_PER_SOL (js_of_rat (75 / 10000000000))) = Finite 7"
  unfolding times_75 by (simp add: floor_eq_iff)

lemma binary64_82: "binary64 (82 / 10) = 4616189618054758 / 2 ^ 49"
  using binary64_eval [of 3 "82 / 10" 4616189618054758] by simp

lemma js_82: "js_of_rat (82 / 10) = Finite (4616189618054758 / 2 ^ 49)"
  by (rule js_of_rat_eq [OF binary64_82]) simp

lemma times_82:
  "times_LAMPORTS_PER_SOL (js_of_rat (82 / 10)) = Finite (8598323199999999 / 2 ^ 20)"
proof -
  have "binary64 (4616189618054758 / 2 ^ 49 * LAMPORTS_PER_SOL) = 8598323199999999 / 2 ^ 20"
    unfolding LAMPORTS_PER_SOL_def
    using binary64_eval [of 32 "4616189618054758 / 2 ^ 49 * 1000000000" 8598323199999999] by simp
  then have "js_of_rat (4616189618054758 / 2 ^ 49 * LAMPORTS_PER_SOL) = Finite (8598323199999999 / 2 ^ 20)"
    by (rule js_of_rat_eq) simp
  then show ?thesis by (simp only: js_82 times_LAMPORTS_PER_SOL.simps)
qed

lemma times_82_fraction: "(8598323199999999 / 2 ^ 20 :: rat) \<notin> \<int>"
  by (rule not_whole [of 8199999999]) simp_all

lemma sol_15: "sol_of_lamports 15 = Finite (4533471823554859 / 2 ^ 78)"
proof -
  have "binary64 (of_int 15) = of_int 15" by (rule binary64_of_int) simp
  then have "binary64 (of_nat 15) = 15" by simp
  then have a: "js_of_rat (of_nat 15) = Finite 15" by (rule js_of_rat_eq) simp
  have "binary64 (15 / LAMPORTS_PER_SOL) = 4533471823554859 / 2 ^ 78"
    unfolding LAMPORTS_PER_SOL_def
    using binary64_eval [of "- 26" "15 / 1000000000" 4533471823554859] by simp
  then have "js_of_rat (15 / LAMPORTS_PER_SOL) = Finite (4533471823554859 / 2 ^ 78)"
    by (rule js_of_rat_eq) simp
  then show ?thesis by (simp only: sol_of_lamports_def a divide_LAMPORTS_PER_SOL.simps)
qed

lemma back_15: "times_LAMPORTS_PER_SOL (sol_of_lamports 15) = Finite (8444249301319679 / 2 ^ 49)"
proof -
  have "binary64 (4533471823554859 / 2 ^ 78 * LAMPORTS_PER_SOL) = 8444249301319679 / 2 ^ 49"
    unfolding LAMPORTS_PER_SOL_def
    using binary64_eval [of 3 "4533471823554859 / 2 ^ 78 * 1000000000" 8444249301319679] by simp
  then have "js_of_rat (4533471823554859 / 2 ^ 78 * LAMPORTS_PER_SOL) = Finite (8444249301319679 / 2 ^ 49)"
    by (rule js_of_rat_eq) simp
  then show ?thesis by (simp only: sol_15 times_LAMPORTS_PER_SOL.simps)
qed

lemma back_15_differs: "times_LAMPORTS_PER_SOL (sol_of_lamports 15) \<noteq> Finite 15"
  unfolding back_15 by simp

section \<open>Facts about the collaborators\<close>

lemma issue_simps [simp]:
  "clock (issue c d w) = clock w + d"
  "calls (issue c d w) = calls w @ [c]"
  "timers (issue c d w) = timers w"
  "on_blockhash (issue c d w) = on_blockhash w"
  "on_send (issue c d w) = on_send w"
  "on_confirm (issue c d w) = on_confirm w"
  "on_airdrop (issue c d w) = on_airdrop w"
  "on_balance (issue c d w) = on_balance w"
  "on_sign (issue c d w) = on_sign w"
  "timer_lag (issue c d w) = timer_lag w"
  by (simp_all add: issue_def)

lemma sleep_simps [simp]:
  "clock (sleep ms w) = clock w + ms + timer_lag w (timers w)"
  "calls (sleep ms w) = calls w"
  "timers (sleep ms w) = Suc (timers w)"
  "on_blockhash (sleep ms w) = on_blockhash w"
  "on_send (sleep ms w) = on_send w"
  "on_confirm (sleep ms w) = on_confirm w"
  "on_airdrop (sleep ms w) = on_airdrop w"
  "on_balance (sleep ms w) = on_balance w"
  "on_sign (sleep ms w) = on_sign w"
  "timer_lag (sleep ms w) = timer_lag w"
  by (simp_all add: sleep_def)

lemma count_calls_simps [simp]:
  "count_calls p [] = 0"
  "count_calls p (cs @ ds) = count_calls p cs + count_calls p ds"
  "count_calls p (c # cs) = (if p c then Suc (count_calls p cs) else count_calls p cs)"
  by (simp_all add: count_calls_def)

lemma confirm_loop_SucE:
  assumes "confirm_loop (Suc fuel) sg st timeout ri l w = Some (r, w')"
  obtains
    (deadline) "\<not> clock w - st < timeout" "r = Inr ''timeout''" "w' = w"
  | (success) d where "clock w - st < timeout"
      "on_confirm w (count_calls is_ConfirmTransaction (calls w)) = (d, Inr False)"
      "r = Inr ''success''"
      "w' = issue (ConfirmTransaction (clock w) sg (Some l) None) d w"
  | (fatal) d reply err where "clock w - st < timeout"
      "on_confirm w (count_calls is_ConfirmTransaction (calls w)) = (d, reply)"
      "thrown_by_confirmation reply = Some err" "\<not> blockhash_expired err"
      "r = Inl err"
      "w' = issue (ConfirmTransaction (clock w) sg (Some l) None) d w"
  | (fetch_failed) d reply err d2 err2 where "clock w - st < timeout"
      "on_confirm w (count_calls is_ConfirmTransaction (calls w)) = (d, reply)"
      "thrown_by_confirmation reply = Some err" "blockhash_expired err"
      "on_blockhash w (count_calls is_GetBlockhash (calls w)) = (d2, Inl err2)"
      "r = Inl err2"
      "w' = issue (GetBlockhash (clock w + d)) d2
              (issue (ConfirmTransaction (clock w) sg (Some l) None) d w)"
  | (retry) d reply err d2 slot l2 where "clock w - st < timeout"
      "on_confirm w (count_calls is_ConfirmTransaction (calls w)) = (d, reply)"
      "thrown_by_confirmation reply = Some err" "blockhash_expired err"
      "on_blockhash w (count_calls is_GetBlockhash (calls w)) = (d2, Inr (slot, l2))"
      "confirm_loop fuel sg st timeout ri l2
         (sleep ri (issue (GetBlockhash (clock w + d)) d2
            (issue (ConfirmTransaction (clock w) sg (Some l) None) d w))) = Some (r, w')"
proof (cases "clock w - st < timeout")
  case False
  with assms have "r = Inr ''timeout''" "w' = w" by auto
  with False show ?thesis by (rule deadline)
next
  case guard: True
  obtain d reply where oc: "on_confirm w (count_calls is_ConfirmTransaction (calls w)) = (d, reply)"
    by (cases "on_confirm w (count_calls is_ConfirmTransaction (calls w))")
  let ?w1 = "issue (ConfirmTransaction (clock w) sg (Some l) None) d w"
  have ct: "confirmTransaction sg (Some l) None w = (reply, ?w1)"
    by (simp add: confirmTransaction_def oc)
  show ?thesis
  proof (cases "thrown_by_confirmation reply")
    case None
    then have "reply = Inr False" by (cases reply) (auto split: if_splits)
    moreover from assms guard ct None have "r = Inr ''success''" "w' = ?w1" by auto
    ultimately show ?thesis using guard oc by (auto intro: success)
  next
    case (Some err)
    show ?thesis
    proof (cases "blockhash_expired err")
      case False
      with assms guard ct Some have "r = Inl err" "w' = ?w1" by auto
      with guard oc Some False show ?thesis by (auto intro: fatal)
    next
      case expired: True
      obtain d2 rep2 where ob: "on_blockhash w (count_calls is_GetBlockhash (calls w)) = (d2, rep2)"
        by (cases "on_blockhash w (count_calls is_GetBlockhash (calls w))")
      let ?w2 = "issue (GetBlockhash (clock w + d)) d2 ?w1"
      have gb: "getLatestBlockhash ?w1 = (rep2, ?w2)"
        by (simp add: getLatestBlockhash_def ob)
      show ?thesis
      proof (cases rep2)
        case (Inl err2)
        with assms guard ct Some expired gb have "r = Inl err2" "w' = ?w2" by auto
        with guard oc Some expired ob Inl show ?thesis by (auto intro: fetch_failed)
      next
        case (Inr p)
        obtain slot l2 where p: "p = (slot, l2)" by (cases p)
        with assms guard ct Some expired gb Inr
        have "confirm_loop fuel sg st timeout ri l2 (sleep ri ?w2) = Some (r, w')" by auto
        with guard oc Some expired ob Inr p show ?thesis by (auto intro: retry)
      qed
    qed
  qed
qed


lemma confirm_loop_frame:
  "confirm_loop fuel sg st timeout ri l w = Some (r, w') \<Longrightarrow>
     on_confirm w' = on_confirm w \<and> on_blockhash w' = on_blockhash w \<and>
     timer_lag w' = timer_lag w \<and> clock w \<le> clock w'"
proof (induction fuel arbitrary: l w)
  case 0
  then show ?case by simp
next
  case (Suc fuel)
  from Suc.prems show ?case
  proof (cases rule: confirm_loop_SucE)
    case (retry d reply err d2 slot l2)
    from Suc.IH [OF retry(6)] show ?thesis by simp
  qed simp_all
qed

lemma confirm_loop_calls:
  "confirm_loop fuel sg st timeout ri l w = Some (r, w') \<Longrightarrow>
     \<exists>new. calls w' = calls w @ new \<and>
       (\<forall>c \<in> set new. is_GetBlockhash c \<or>
          (\<exists>t l'. c = ConfirmTransaction t sg (Some l') None \<and> t - st < timeout))"
proof (induction fuel arbitrary: l w)
  case 0
  then show ?case by simp
next
  case (Suc fuel)
  from Suc.prems show ?case
  proof (cases rule: confirm_loop_SucE)
    case (retry d reply err d2 slot l2)
    from Suc.IH [OF retry(6)] obtain new where
      "calls w' = calls w @ ConfirmTransaction (clock w) sg (Some l) None # GetBlockhash (clock w + d) # new"
      "\<forall>c \<in> set new. is_GetBlockhash c \<or>
          (\<exists>t l'. c = ConfirmTransaction t sg (Some l') None \<and> t - st < timeout)"
      by auto
    with retry(1) show ?thesis by auto
  qed auto
qed

lemma confirm_loop_timeout_clock:
  "confirm_loop fuel sg st timeout ri l w = Some (Inr ''timeout'', w') \<Longrightarrow>
     timeout \<le> clock w' - st"
proof (induction fuel arbitrary: l w)
  case 0
  then show ?case by simp
next
  case (Suc fuel)
  from Suc.prems show ?case
  proof (cases rule: confirm_loop_SucE)
    case (retry d reply err d2 slot l2)
    from Suc.IH [OF retry(6)] show ?thesis .
  qed auto
qed

lemma confirm_loop_fetches:
  "confirm_loop fuel sg st timeout ri l w = Some (r, w') \<Longrightarrow>
     count_calls is_GetBlockhash (calls w') =
       count_calls is_GetBlockhash (calls w) +
       length (filter (\<lambda>k. expired_reply (snd (on_confirm w k)))
         [count_calls is_ConfirmTransaction (calls w) ..< count_calls is_ConfirmTransaction (calls w')])"
proof (induction fuel arbitrary: l w)
  case 0
  then show ?case by simp
next
  case (Suc fuel)
  let ?n = "count_calls is_ConfirmTransaction (calls w)"
  from Suc.prems show ?case
  proof (cases rule: confirm_loop_SucE)
    case deadline
    then show ?thesis by simp
  next
    case (success d)
    then show ?thesis by (simp add: expired_reply_def)
  next
    case (fatal d reply err)
    then show ?thesis by (simp add: expired_reply_def)
  next
    case (fetch_failed d reply err d2 err2)
    then show ?thesis by (simp add: expired_reply_def)
  next
    case (retry d reply err d2 slot l2)
    let ?w3 = "sleep ri (issue (GetBlockhash (clock w + d)) d2
            (issue (ConfirmTransaction (clock w) sg (Some l) None) d w))"
    from confirm_loop_calls [OF retry(6)] obtain new where new: "calls w' = calls ?w3 @ new" by blast
    have le: "Suc ?n \<le> count_calls is_ConfirmTransaction (calls w')"
      by (simp add: new)
    have split: "[?n ..< count_calls is_ConfirmTransaction (calls w')] =
        ?n # [Suc ?n ..< count_calls is_ConfirmTransaction (calls w')]"
      using le by (simp add: upt_conv_Cons)
    from Suc.IH [OF retry(6)] retry(2,3,4) show ?thesis
      by (simp add: split expired_reply_def)
  qed
qed


lemma confirm_loop_leases:
  "confirm_loop fuel sg st timeout ri l w = Some (r, w') \<Longrightarrow>
     prefix (map lease_used (filter is_ConfirmTransaction (drop (length (calls w)) (calls w'))))
       (Some l # map (fetched_lease w)
          [count_calls is_GetBlockhash (calls w) ..< count_calls is_GetBlockhash (calls w')])"
proof (induction fuel arbitrary: l w)
  case 0
  then show ?case by simp
next
  case (Suc fuel)
  let ?n = "count_calls is_GetBlockhash (calls w)"
  from Suc.prems show ?case
  proof (cases rule: confirm_loop_SucE)
    case (retry d reply err d2 slot l2)
    let ?w3 = "sleep ri (issue (GetBlockhash (clock w + d)) d2
            (issue (ConfirmTransaction (clock w) sg (Some l) None) d w))"
    from confirm_loop_calls [OF retry(6)] obtain new where new: "calls w' = calls ?w3 @ new" by blast
    have le: "Suc ?n \<le> count_calls is_GetBlockhash (calls w')"
      by (simp add: new)
    have split: "[?n ..< count_calls is_GetBlockhash (calls w')] =
        ?n # [Suc ?n ..< count_calls is_GetBlockhash (calls w')]"
      using le by (simp add: upt_conv_Cons)
    have fl: "fetched_lease ?w3 = fetched_lease w"
      by (rule ext) (simp add: fetched_lease_def)
    have l2: "fetched_lease w ?n = Some l2"
      by (simp add: fetched_lease_def retry(5))
    have d: "drop (length (calls w)) (calls w') =
        ConfirmTransaction (clock w) sg (Some l) None # GetBlockhash (clock w + d) #
        drop (length (calls ?w3)) (calls w')"
      by (simp add: new)
    have c3: "count_calls is_GetBlockhash (calls ?w3) = Suc ?n" by simp
    from Suc.IH [OF retry(6)]
    have "prefix (map lease_used (filter is_ConfirmTransaction (drop (length (calls ?w3)) (calls w'))))
       (Some l2 # map (fetched_lease w) [Suc ?n ..< count_calls is_GetBlockhash (calls w')])"
      by (simp only: fl c3)
    then show ?thesis
      unfolding d split by (simp add: l2)
  qed simp_all
qed

lemma confirm_loop_fatal_last:
  assumes "confirm_loop fuel sg st timeout ri l w = Some (r, w')"
    and "count_calls is_ConfirmTransaction (calls w) \<le> k"
    and "k < count_calls is_ConfirmTransaction (calls w')"
    and "thrown_by_confirmation (snd (on_confirm w k)) = Some err"
    and "\<not> blockhash_expired err"
  shows "r = Inl err \<and> Suc k = count_calls is_ConfirmTransaction (calls w') \<and>
         is_ConfirmTransaction (last (calls w'))"
  using assms
proof (induction fuel arbitrary: l w)
  case 0
  then show ?case by simp
next
  case (Suc fuel)
  let ?n = "count_calls is_ConfirmTransaction (calls w)"
  from Suc.prems(1) show ?case
  proof (cases rule: confirm_loop_SucE)
    case deadline
    with Suc.prems show ?thesis by simp
  next
    case (success d)
    with Suc.prems have "k = ?n" by simp
    with success Suc.prems show ?thesis by simp
  next
    case (fatal d reply e)
    with Suc.prems have "k = ?n" by simp
    with fatal Suc.prems show ?thesis by simp
  next
    case (fetch_failed d reply e d2 err2)
    with Suc.prems have "k = ?n" by simp
    with fetch_failed Suc.prems show ?thesis by simp
  next
    case (retry d reply e d2 slot l2)
    let ?w3 = "sleep ri (issue (GetBlockhash (clock w + d)) d2
            (issue (ConfirmTransaction (clock w) sg (Some l) None) d w))"
    have "k \<noteq> ?n" using retry(2,3,4) Suc.prems(4,5) by auto
    with Suc.prems(2) have a: "count_calls is_ConfirmTransaction (calls ?w3) \<le> k" by simp
    have b: "thrown_by_confirmation (snd (on_confirm ?w3 k)) = Some err"
      using Suc.prems(4) by simp
    show ?thesis
      by (rule Suc.IH [OF retry(6) a Suc.prems(3) b Suc.prems(5)])
  qed
qed



text \<open>
  When every confirmation attempt is answered with an expired blockhash and every
  blockhash request succeeds, \<open>fuel\<close> passes through the loop are enough as soon as
  \<open>fuel * retryInterval\<close> covers what is left of the budget plus one interval.
\<close>

lemma confirm_loop_times_out:
  assumes "\<forall>k. expired_reply (snd (on_confirm w k))"
    and "\<forall>k. fetched_lease w k \<noteq> None"
    and "0 < ri"
    and "(st + timeout - clock w) + ri \<le> fuel * ri"
  shows "\<exists>w'. confirm_loop fuel sg st timeout ri l w = Some (Inr ''timeout'', w')"
  using assms
proof (induction fuel arbitrary: l w)
  case 0
  then show ?case by simp
next
  case (Suc fuel)
  show ?case
  proof (cases "clock w - st < timeout")
    case False
    then show ?thesis by simp
  next
    case guard: True
    let ?nc = "count_calls is_ConfirmTransaction (calls w)"
    let ?nb = "count_calls is_GetBlockhash (calls w)"
    obtain d reply where oc: "on_confirm w ?nc = (d, reply)"
      by (cases "on_confirm w ?nc")
    from Suc.prems(1) have "expired_reply (snd (on_confirm w ?nc))" by blast
    with oc obtain err where err: "thrown_by_confirmation reply = Some err" "blockhash_expired err"
      by (auto simp: expired_reply_def split: option.splits)
    obtain d2 rep2 where ob: "on_blockhash w ?nb = (d2, rep2)"
      by (cases "on_blockhash w ?nb")
    from Suc.prems(2) have "fetched_lease w ?nb \<noteq> None" by blast
    with ob obtain slot l2 where rep2: "rep2 = Inr (slot, l2)"
      by (auto simp: fetched_lease_def split: sum.splits)
    let ?w3 = "sleep ri (issue (GetBlockhash (clock w + d)) d2
            (issue (ConfirmTransaction (clock w) sg (Some l) None) d w))"
    have step: "confirm_loop (Suc fuel) sg st timeout ri l w =
        confirm_loop fuel sg st timeout ri l2 ?w3"
      using guard oc err ob rep2
      by (simp add: confirmTransaction_def getLatestBlockhash_def)
    have fl: "fetched_lease ?w3 = fetched_lease w"
      by (rule ext) (simp add: fetched_lease_def)
    have pos: "0 < fuel"
    proof (rule ccontr)
      assume "\<not> 0 < fuel"
      with Suc.prems(4) guard show False by simp
    qed
    then have "ri \<le> fuel * ri" by (cases fuel) simp_all
    moreover have "clock w + ri \<le> clock ?w3" by simp
    moreover from Suc.prems(4) have "(st + timeout - clock w) \<le> fuel * ri" by simp
    ultimately have budget: "(st + timeout - clock ?w3) + ri \<le> fuel * ri" by linarith
    from Suc.IH [of ?w3 l2] Suc.prems(1,2,3) budget fl
    have "\<exists>w'. confirm_loop fuel sg st timeout ri l2 ?w3 = Some (Inr ''timeout'', w')"
      by simp
    with step show ?thesis by simp
  qed
qed


lemma confirm_loop_numeral:
  "confirm_loop (numeral k) sg startTime timeout retryInterval l w =
     (if clock w - startTime < timeout then
        (case confirmTransaction sg (Some l) None w of
           (reply, w1) \<Rightarrow>
             (case thrown_by_confirmation reply of
                None \<Rightarrow> Some (Inr ''success'', w1)
              | Some err \<Rightarrow>
                  if blockhash_expired err then
                    (case getLatestBlockhash w1 of
                       (Inl err2, w2) \<Rightarrow> Some (Inl err2, w2)
                     | (Inr (slot, newBlockData), w2) \<Rightarrow>
                         confirm_loop (pred_numeral k) sg startTime timeout retryInterval newBlockData
                           (sleep retryInterval w2))
                  else Some (Inl err, w1)))
      else Some (Inr ''timeout'', w))"
  using confirm_loop.simps(2) [of "pred_numeral k"] by (simp only: numeral_eq_Suc)



lemma phrases [simp]:
  "blockhash_expired (new_Error ''blockhash expired'')"
  "blockhash_expired (new_Error ''Blockhash not found'')"
  "\<not> blockhash_expired (new_Error ''Transaction failed'')"
  by (simp_all add: blockhash_expired_def str_includes_def new_Error_def sublist_code)

lemma has_expiry_phrase_iff: "has_expiry_phrase err = blockhash_expired err"
  by (simp add: has_expiry_phrase_def blockhash_expired_def)

lemma expiry_rejection_iff: "expiry_rejection reply = expired_reply reply"
  by (cases reply) (simp_all add: expiry_rejection_def expired_reply_def has_expiry_phrase_iff)

text \<open>One pass of the loop, by what the confirmation request is answered with.\<close>

lemma confirm_loop_value_err:
  assumes "clock w - st < timeout" "confirmTransaction sg (Some l) None w = (Inr True, w1)"
  shows "confirm_loop (Suc fuel) sg st timeout ri l w = Some (Inl (new_Error ''Transaction failed''), w1)"
  using assms by simp

lemma confirm_loop_fatal:
  assumes "clock w - st < timeout" "confirmTransaction sg (Some l) None w = (Inl err, w1)"
    "\<not> has_expiry_phrase err"
  shows "confirm_loop (Suc fuel) sg st timeout ri l w = Some (Inl err, w1)"
  using assms by (simp add: has_expiry_phrase_iff)

lemma confirm_loop_expired:
  assumes "clock w - st < timeout" "confirmTransaction sg (Some l) None w = (Inl err, w1)"
    "has_expiry_phrase err"
  shows "confirm_loop (Suc fuel) sg st timeout ri l w =
     (case getLatestBlockhash w1 of
        (Inl err2, w2) \<Rightarrow> Some (Inl err2, w2)
      | (Inr (slot, l2), w2) \<Rightarrow> confirm_loop fuel sg st timeout ri l2 (sleep ri w2))"
  using assms by (simp add: has_expiry_phrase_iff)

lemma confirm_loop_deadline:
  assumes "\<not> clock w - st < timeout"
  shows "confirm_loop (Suc fuel) sg st timeout ri l w = Some (Inr ''timeout'', w)"
  using assms by simp

text \<open>What a request adds to the log.\<close>

lemma confirmTransaction_calls:
  "confirmTransaction sg l m w = (reply, w1) \<Longrightarrow>
     calls w1 = calls w @ [ConfirmTransaction (clock w) sg l m] \<and> timers w1 = timers w"
  by (auto simp: confirmTransaction_def split: prod.splits)

lemma getLatestBlockhash_calls:
  "getLatestBlockhash w = (reply, w1) \<Longrightarrow>
     calls w1 = calls w @ [GetBlockhash (clock w)] \<and> timers w1 = timers w"
  by (auto simp: getLatestBlockhash_def split: prod.splits)

lemma sendTransaction_calls:
  "sendTransaction tx m w = (reply, w1) \<Longrightarrow>
     calls w1 = calls w @ [SendTransaction (clock w) tx m]"
  by (auto simp: sendTransaction_def split: prod.splits)

lemma confirm_loop_sends_nothing:
  assumes "confirm_loop fuel sg st timeout ri l w = Some (r, w')"
  shows "\<exists>rest. calls w' = calls w @ rest \<and> count_calls is_SendTransaction rest = 0"
proof -
  from confirm_loop_calls [OF assms] obtain new where
    new: "calls w' = calls w @ new"
      "\<forall>c \<in> set new. is_GetBlockhash c \<or>
          (\<exists>t l'. c = ConfirmTransaction t sg (Some l') None \<and> t - st < timeout)"
    by blast
  have "\<not> is_SendTransaction c" if "c \<in> set new" for c
    using new(2) that by (cases c) auto
  then have "filter is_SendTransaction new = []"
    by (simp add: filter_empty_conv)
  then have "count_calls is_SendTransaction new = 0" by (simp add: count_calls_def)
  with new(1) show ?thesis by blast
qed

section \<open>The concrete runs, evaluated\<close>

lemma scripted_simps [simp]:
  "clock (scripted cf ft) = 0" "calls (scripted cf ft) = []" "timers (scripted cf ft) = 0"
  "on_blockhash (scripted cf ft) = ft" "on_confirm (scripted cf ft) = cf"
  "timer_lag (scripted cf ft) k = 0"
  by (simp_all add: scripted_def)

lemma run_expires_once:
  "confirmTransactionWithRetry 5 ''sig'' lease1 60000 2000 expires_once =
     Some (Inr ''success'', expires_once_end)"
  by (simp add: confirmTransactionWithRetry_def confirm_loop_numeral confirmTransaction_def
      getLatestBlockhash_def expires_once_def expires_once_end_def issue_def sleep_def scripted_def)

lemma run_always_expired:
  "confirmTransactionWithRetry 5 ''sig'' lease1 5000 2000 always_expired =
     Some (Inr ''timeout'', always_expired_end)"
  by (simp add: confirmTransactionWithRetry_def confirm_loop_numeral confirmTransaction_def
      getLatestBlockhash_def always_expired_def always_expired_end_def issue_def sleep_def scripted_def)

lemma run_fails_on_chain:
  "confirmTransactionWithRetry 5 ''sig'' lease1 60000 2000 fails_on_chain =
     Some (Inl (new_Error ''Transaction failed''), fails_on_chain_end)"
  by (simp add: confirmTransactionWithRetry_def confirm_loop_numeral confirmTransaction_def
      fails_on_chain_def fails_on_chain_end_def issue_def scripted_def)

lemma run_fails_late:
  "confirmTransactionWithRetry 5 ''sig'' lease1 default_timeout default_retryInterval fails_late =
     Some (Inl (new_Error ''Signature has expired: block height exceeded''), fails_late_end)"
  by (simp add: confirmTransactionWithRetry_def confirm_loop_numeral confirmTransaction_def
      fails_late_def fails_late_end_def issue_def scripted_def default_timeout_def
      default_retryInterval_def blockhash_expired_def str_includes_def new_Error_def sublist_code)

lemma end_simps [simp]:
  "calls expires_once = []" "clock expires_once = 0"
  "calls always_expired = []" "clock always_expired = 0"
  "calls fails_on_chain = []" "clock fails_on_chain = 0"
  "calls expires_once_end = [ConfirmTransaction 0 ''sig'' (Some lease1) None, GetBlockhash 100,
                 ConfirmTransaction 2110 ''sig'' (Some lease2) None]"
  "calls always_expired_end = [ConfirmTransaction 0 ''sig'' (Some lease1) None, GetBlockhash 100,
                 ConfirmTransaction 2110 ''sig'' (Some lease2) None, GetBlockhash 2210,
                 ConfirmTransaction 4220 ''sig'' (Some lease2) None, GetBlockhash 4320]"
  "clock always_expired_end = 6330"
  "calls fails_on_chain_end = [ConfirmTransaction 0 ''sig'' (Some lease1) None]"
  by (simp_all add: expires_once_def always_expired_def fails_on_chain_def expires_once_end_def
      always_expired_end_def fails_on_chain_end_def)

lemma js_of_rat_whole:
  assumes "\<bar>n\<bar> < 2 ^ 53"
  shows "js_of_rat (of_int n) = Finite (of_int n)"
proof (rule js_of_rat_eq [OF binary64_of_int [OF assms]])
  from assms have "(of_int \<bar>n\<bar> :: rat) < of_int (2 ^ 53)" by (simp only: of_int_less_iff)
  then have "\<bar>of_int n :: rat\<bar> < 2 ^ 53" by simp
  also have "(2::rat) ^ 53 < 2 ^ 1024" by simp
  finally show "\<bar>of_int n :: rat\<bar> < 2 ^ 1024" .
qed

lemma lamports_of_one [simp]:
  "lamports_of_amount (Finite 1) = Finite 1000000000"
  "lamports_of_amount_rounded (Finite 1) = Finite 1000000000"
proof -
  have "js_of_rat (of_int 1000000000) = Finite (of_int 1000000000)"
    by (rule js_of_rat_whole) simp
  then have a: "times_LAMPORTS_PER_SOL (Finite 1) = Finite 1000000000"
    by (simp add: LAMPORTS_PER_SOL_def)
  show "lamports_of_amount (Finite 1) = Finite 1000000000"
    by (simp only: lamports_of_amount_def a)
  show "lamports_of_amount_rounded (Finite 1) = Finite 1000000000"
    unfolding lamports_of_amount_rounded_def a by (simp add: floor_eq_iff)
qed

lemma binary64_12: "binary64 (12 / 10000000000) = 5802843934150220 / 2 ^ 82"
  using binary64_eval [of "- 30" "12 / 10000000000" 5802843934150220] by simp

lemma sub_lamport_amount_value: "sub_lamport_amount = Finite (5802843934150220 / 2 ^ 82)"
  unfolding sub_lamport_amount_def by (rule js_of_rat_eq [OF binary64_12]) simp

lemma times_12:
  "times_LAMPORTS_PER_SOL sub_lamport_amount = Finite (5404319552844595 / 2 ^ 52)"
proof -
  have "binary64 (5802843934150220 / 2 ^ 82 * LAMPORTS_PER_SOL) = 5404319552844595 / 2 ^ 52"
    unfolding LAMPORTS_PER_SOL_def
    using binary64_eval [of 0 "5802843934150220 / 2 ^ 82 * 1000000000" 5404319552844595] by simp
  then have "js_of_rat (5802843934150220 / 2 ^ 82 * LAMPORTS_PER_SOL) = Finite (5404319552844595 / 2 ^ 52)"
    by (rule js_of_rat_eq) simp
  then show ?thesis by (simp only: sub_lamport_amount_value times_LAMPORTS_PER_SOL.simps)
qed

lemma round_12 [simp]: "lamports_of_amount_rounded sub_lamport_amount = Finite 1"
  unfolding lamports_of_amount_rounded_def times_12 by (simp add: floor_eq_iff)

lemma round_15 [simp]: "lamports_of_amount_rounded (sol_of_lamports 15) = Finite 15"
  unfolding lamports_of_amount_rounded_def using round_trip [of 15] by simp

lemma lib0_simps [simp]:
  "parseFloat lib0 ''1'' = Finite 1"
  "parseFloat lib0 ''0.0000000012'' = sub_lamport_amount"
  "parseFloat lib0 ''0.000000015'' = sol_of_lamports 15"
  "parseFloat lib0 ''-1'' = Finite (- 1)"
  "PublicKey_valid lib0 s = (s = ''recipient'')"
  "build_error lib0 tx = None"
  by (simp_all add: lib0_def)

lemma amounts_accepted [simp]:
  "\<not> isNaN sub_lamport_amount" "\<not> le_zero sub_lamport_amount"
  "\<not> isNaN (sol_of_lamports 15)" "\<not> le_zero (sol_of_lamports 15)"
  by (simp_all add: sub_lamport_amount_value sol_15)

lemma run_send_rejected:
  "handleSend_bounded lib0 (Some ''recipient'') (Some ''1'') connected send_rejected =
     (connected, send_rejected_end)"
  by (simp add: handleSend_bounded_def connected_def parseFloat_prompt_def
      numeral_3_eq_3 send_attempt_def getLatestBlockhash_def sendTransaction_def
      send_rejected_def send_rejected_end_def scripted_def issue_def sleep_def
      transfer_of_one_def lease2_def str_includes_def sublist_code)

lemma run_fails_on_chain_sent:
  "handleSend_confirm 5 lib0 ''recipient'' ''1'' connected fails_on_chain =
     Some (connected\<lparr>error := Some ''Transaction failed''\<rparr>, fails_on_chain_sent)"
  by (simp add: handleSend_confirm_def connected_def send_try_confirm_def
      getLatestBlockhash_def sendTransaction_def confirmTransaction_def
      confirmTransactionWithRetry_def confirm_loop_numeral default_timeout_def
      default_retryInterval_def fails_on_chain_def fails_on_chain_sent_def scripted_def
      issue_def transfer_of_one_def
      lease2_def errorMessage_confirm_def new_Error_def blockhash_expired_def
      str_includes_def sublist_code)

lemma run_confirms_at_once:
  "handleSend_confirm 5 lib0 ''recipient'' ''0.0000000012'' connected confirms_at_once =
     Some (raise_alert (AlertSuccess ''sig'') connected, confirms_at_once_end)"
  by (simp add: handleSend_confirm_def connected_def send_try_confirm_def
      getLatestBlockhash_def sendTransaction_def confirmTransaction_def
      confirmTransactionWithRetry_def confirm_loop_numeral default_timeout_def
      default_retryInterval_def confirms_at_once_def confirms_at_once_end_def scripted_def
      issue_def transfer_of_one_def lease2_def raise_alert_def)

lemma phrase_examples [simp]:
  "has_expiry_phrase (new_Error ''blockhash expired'')"
  "has_expiry_phrase (new_Error ''Blockhash not found'')"
  "\<not> has_expiry_phrase (new_Error ''Transaction failed'')"
  "\<not> has_expiry_phrase (new_Error ''Network request failed'')"
  by (simp_all add: has_expiry_phrase_def str_includes_def new_Error_def sublist_code)

lemma Blockhash_examples:
  "\<not> str_includes (message (new_Error ''blockhash expired'')) ''Blockhash''"
  "str_includes (message (new_Error ''Blockhash not found'')) ''Blockhash''"
  "str_includes (message (new_Error ''blockhash expired'')) ''blockhash expired''"
  "\<not> str_includes (message (new_Error ''Network request failed'')) ''Blockhash not found''"
  "\<not> str_includes (message (new_Error ''Network request failed'')) ''blockhash expired''"
  by (simp_all add: str_includes_def new_Error_def sublist_code)

lemma steps_expires_once:
  "clock expires_once - 0 < 60000"
  "confirmTransaction ''sig'' (Some lease1) None expires_once =
     (Inl (new_Error ''blockhash expired''), expires_once_polled)"
  "getLatestBlockhash expires_once_polled = (Inr (7, lease2), expires_once_fetched)"
  "clock (sleep 2000 expires_once_fetched) - 0 < 60000"
  "confirmTransaction ''sig'' (Some lease2) None (sleep 2000 expires_once_fetched) =
     (Inr False, expires_once_end)"
  "calls expires_once_fetched =
     [ConfirmTransaction 0 ''sig'' (Some lease1) None, GetBlockhash 100]"
  by (simp_all add: confirmTransaction_def getLatestBlockhash_def expires_once_polled_def
      expires_once_fetched_def expires_once_def expires_once_end_def issue_def sleep_def
      scripted_def)

lemma steps_fetch_fails:
  "clock fetch_fails - 0 < 60000"
  "confirmTransaction ''sig'' (Some lease1) None fetch_fails =
     (Inl (new_Error ''Blockhash not found''), fetch_fails_polled)"
  "getLatestBlockhash fetch_fails_polled =
     (Inl (new_Error ''Network request failed''), fetch_fails_end)"
  by (simp_all add: confirmTransaction_def getLatestBlockhash_def fetch_fails_polled_def
      fetch_fails_def fetch_fails_end_def issue_def scripted_def)

lemma steps_network_fails:
  "clock network_fails - 0 < 60000"
  "confirmTransaction ''sig'' (Some lease1) None network_fails =
     (Inl (new_Error ''Network request failed''), network_fails_end)"
  "calls network_fails = []"
  "calls network_fails_end = [ConfirmTransaction 0 ''sig'' (Some lease1) None]"
  "timers network_fails_end = 0"
  "snd (on_confirm network_fails 0) = Inl (new_Error ''Network request failed'')"
  by (simp_all add: confirmTransaction_def network_fails_def network_fails_end_def
      issue_def scripted_def)

lemma steps_fails_on_chain:
  "clock fails_on_chain - 0 < 60000"
  "confirmTransaction ''sig'' (Some lease1) None fails_on_chain = (Inr True, fails_on_chain_end)"
  "timers fails_on_chain_end = 0"
  "snd (on_confirm fails_on_chain 0) = Inr True"
  by (simp_all add: confirmTransaction_def fails_on_chain_def fails_on_chain_end_def
      issue_def scripted_def)

lemma run_expires_once_bounded:
  "handleSend_bounded lib0 (Some ''recipient'') (Some ''1'') connected expires_once =
     (raise_alert (AlertFailed ''blockhash expired'')
        (connected\<lparr>error := Some ''blockhash expired''\<rparr>), expires_once_given_up)"
  by (simp add: handleSend_bounded_def connected_def parseFloat_prompt_def
      numeral_3_eq_3 send_attempt_def getLatestBlockhash_def sendTransaction_def
      confirmTransaction_def expires_once_def expires_once_given_up_def scripted_def issue_def
      transfer_of_one_def lease2_def str_includes_def sublist_code new_Error_def
      errorMessage_bounded_def raise_alert_def)

lemma steps_bounded:
  "getLatestBlockhash expires_once = (Inr (7, lease2), fetched_at_0 expires_once)"
  "sendTransaction transfer_of_one (Some 7) (fetched_at_0 expires_once) =
     (Inr ''sig'', sent_at_10 expires_once)"
  "confirmTransaction ''sig'' (Some lease2) (Some 7) (sent_at_10 expires_once) =
     (Inl (new_Error ''blockhash expired''), polled_at_15 expires_once)"
  "getLatestBlockhash always_expired = (Inr (7, lease2), fetched_at_0 always_expired)"
  "sendTransaction transfer_of_one (Some 7) (fetched_at_0 always_expired) =
     (Inr ''sig'', sent_at_10 always_expired)"
  "confirmTransaction ''sig'' (Some lease2) (Some 7) (sent_at_10 always_expired) =
     (Inl (new_Error ''Blockhash not found''), polled_at_15 always_expired)"
  by (simp_all add: getLatestBlockhash_def sendTransaction_def confirmTransaction_def
      fetched_at_0_def sent_at_10_def polled_at_15_def expires_once_def always_expired_def
      scripted_def issue_def)

lemma transfer_of_one_eq:
  "transfer_of_one = \<lparr>feePayer = Some ''payer'', recentBlockhash = Some (blockhash lease2),
     fromPubkey = ''payer'', toPubkey = ''recipient'', lamports = lamports_of_amount (Finite 1)\<rparr>"
  by (simp add: transfer_of_one_def lease2_def)

lemma run_holds_15:
  "getBalance_rpc ''payer'' holds_15 = (Inr 15, holds_15_end)"
  "getBalance connected holds_15 =
     (connected\<lparr>balance := Some (sol_of_lamports 15)\<rparr>, holds_15_end)"
  by (simp_all add: getBalance_def getBalance_rpc_def connected_def holds_15_def holds_15_end_def
      confirms_at_once_def scripted_def issue_def count_calls_def)

lemma transfer_of_15_eq:
  "transfer_of_15 = \<lparr>feePayer = Some ''payer'', recentBlockhash = Some (blockhash lease2),
     fromPubkey = ''payer'', toPubkey = ''recipient'',
     lamports = Math_round (times_LAMPORTS_PER_SOL (sol_of_lamports 15))\<rparr>"
  using round_trip [of 15] by (simp add: transfer_of_15_def transfer_of_one_def lease2_def)

lemma transfer_of_one_unrounded:
  "transfer_of_one = \<lparr>feePayer = Some ''payer'', recentBlockhash = Some (blockhash lease2),
     fromPubkey = ''payer'', toPubkey = ''recipient'',
     lamports = times_LAMPORTS_PER_SOL (Finite 1)\<rparr>"
  using lamports_of_one(1) by (simp add: transfer_of_one_def lease2_def lamports_of_amount_def)

lemma run_sends_15:
  "handleSend_confirm 5 lib0 ''recipient'' ''0.000000015'' connected confirms_at_once =
     Some (raise_alert (AlertSuccess ''sig'') connected, sends_15_end)"
  by (simp add: handleSend_confirm_def connected_def send_try_confirm_def
      getLatestBlockhash_def sendTransaction_def confirmTransaction_def
      confirmTransactionWithRetry_def confirm_loop_numeral default_timeout_def
      default_retryInterval_def confirms_at_once_def sends_15_end_def scripted_def
      issue_def transfer_of_15_def transfer_of_one_def lease2_def raise_alert_def)

lemma run_sends_one:
  "handleSend_App lib0 (Some ''recipient'') (Some ''1'') connected confirms_at_once =
     (raise_alert (AlertSent (Finite 1) ''recipient'') connected, sends_one_end)"
  by (simp add: handleSend_App_def connected_def send_try_App_def parseFloat_prompt_def
      getLatestBlockhash_def sendTransaction_def confirmTransaction_def
      confirms_at_once_def sends_one_end_def scripted_def
      issue_def transfer_of_one_def lease2_def raise_alert_def)

lemma steps_confirms_at_once:
  "getLatestBlockhash confirms_at_once = (Inr (7, lease2), fetched_at_0 confirms_at_once)"
  "clock confirms_at_once = 0" "clock (fetched_at_0 confirms_at_once) = 10"
  "calls confirms_at_once = []"
  "calls sends_15_end = [GetBlockhash 0, SendTransaction 10 transfer_of_15 None,
                 ConfirmTransaction 15 ''sig'' (Some lease2) None]"
  "calls sends_one_end = [GetBlockhash 0, SendTransaction 10 transfer_of_one None,
                 ConfirmTransaction 15 ''sig'' None None]"
  by (simp_all add: getLatestBlockhash_def fetched_at_0_def confirms_at_once_def
      sends_15_end_def sends_one_end_def scripted_def issue_def)

section \<open>Facts about the handlers\<close>

lemma raise_alert_simps [simp]:
  "loading (raise_alert a c) = loading c"
  "error (raise_alert a c) = error c"
  "publicKey (raise_alert a c) = publicKey c"
  "alerts (raise_alert a c) = alerts c @ [a]"
  by (simp_all add: raise_alert_def)

lemma requestAirdrop_App_loading:
  "loading (fst (requestAirdrop_App lb v c w)) = (airdrop_returns_early lb v c \<and> loading c)"
  by (auto simp: requestAirdrop_App_def airdrop_returns_early_def Let_def split: option.splits prod.splits)

lemma requestAirdrop_Buffer_loading:
  "loading (fst (requestAirdrop_Buffer lb v c w)) = (airdrop_returns_early lb v c \<and> loading c)"
  by (auto simp: requestAirdrop_Buffer_def airdrop_returns_early_def Let_def split: option.splits prod.splits)

lemma handleSend_App_loading:
  "loading (fst (handleSend_App lb tp ai c w)) = (send_returns_early lb tp ai c \<and> loading c)"
  by (auto simp: handleSend_App_def send_returns_early_def recipient_rejected_def amount_rejected_def
      Let_def split: option.splits prod.splits)

lemma handleSend_bounded_loading:
  "loading (fst (handleSend_bounded lb tp ai c w)) = (send_returns_early lb tp ai c \<and> loading c)"
  by (auto simp: handleSend_bounded_def send_returns_early_def recipient_rejected_def amount_rejected_def
      Let_def split: option.splits prod.splits)

lemma handleSend_confirm_loading:
  "handleSend_confirm fuel lb ta sa c w = Some (c', w') \<Longrightarrow>
     loading c' = (send_confirm_returns_early lb ta sa c \<and> loading c)"
  by (auto simp: handleSend_confirm_def send_confirm_returns_early_def amount_rejected_def
      Let_def split: option.splits prod.splits if_splits)

lemma handleSignMessage_with_loading:
  "loading (fst (handleSignMessage_with hex failure t1 t2 msg c w)) = (sign_returns_early msg c \<and> loading c)"
  by (auto simp: handleSignMessage_with_def sign_returns_early_def
      Let_def split: option.splits prod.splits sum.splits)

lemma handleSend_confirm_rejects:
  "amount_rejected (parseFloat lb sa) \<or> \<not> PublicKey_valid lb ta \<Longrightarrow>
     \<exists>c'. handleSend_confirm fuel lb ta sa c w = Some (c', w) \<and> loading c' = loading c \<and> error c' = error c"
  by (auto simp: handleSend_confirm_def amount_rejected_def Let_def split: option.splits)

lemma handleSend_App_rejects:
  "recipient_rejected lb tp \<or> amount_rejected (parseFloat_prompt lb ai) \<Longrightarrow>
     \<exists>c'. handleSend_App lb tp ai c w = (c', w) \<and> loading c' = loading c \<and> error c' = error c"
  by (auto simp: handleSend_App_def recipient_rejected_def amount_rejected_def Let_def split: option.splits)

lemma handleSend_bounded_rejects:
  "recipient_rejected lb tp \<or> amount_rejected (parseFloat_prompt lb ai) \<Longrightarrow>
     \<exists>c'. handleSend_bounded lb tp ai c w = (c', w) \<and> loading c' = loading c \<and> error c' = error c"
  by (auto simp: handleSend_bounded_def recipient_rejected_def amount_rejected_def Let_def split: option.splits)

text \<open>
  Two of the three \<open>handleSend\<close> variants show the user something on every path: an
  alert, or a text in \<open>error\<close>.
\<close>

lemma send_try_confirm_alerts:
  "send_try_confirm fuel lb pk to amount c w = Some (thrown, c1, w1) \<Longrightarrow>
     (thrown = None \<longrightarrow> (\<exists>sg. c1 = raise_alert (AlertSuccess sg) c)) \<and>
     (thrown \<noteq> None \<longrightarrow> c1 = c)"
  by (auto simp: send_try_confirm_def Let_def split: prod.splits sum.splits option.splits if_splits)

lemma handleSend_confirm_surfaces:
  assumes "handleSend_confirm fuel lb ta sa c w = Some (c', w')"
  shows "alerts c' \<noteq> alerts c \<or> error c' \<noteq> None"
proof (cases "send_confirm_returns_early lb ta sa c")
  case True
  with assms show ?thesis
    by (auto simp: handleSend_confirm_def send_confirm_returns_early_def amount_rejected_def
        Let_def split: option.splits if_splits)
next
  case False
  then obtain pk where pk: "publicKey c = Some pk" 
    and ok: "\<not> isNaN (parseFloat lb sa)" "\<not> le_zero (parseFloat lb sa)" "PublicKey_valid lb ta"
    by (auto simp: send_confirm_returns_early_def amount_rejected_def)
  from assms pk ok obtain thrown c1 where
    t: "send_try_confirm fuel lb pk ta (parseFloat lb sa) (c\<lparr>loading := True, error := None\<rparr>) w = Some (thrown, c1, w')"
    and c': "c' = (case thrown of None \<Rightarrow> c1 | Some err \<Rightarrow> c1\<lparr>error := Some (errorMessage_confirm err)\<rparr>)\<lparr>loading := False\<rparr>"
    by (auto simp: handleSend_confirm_def Let_def split: option.splits prod.splits)
  from send_try_confirm_alerts [OF t] c' show ?thesis
    by (cases thrown) auto
qed

lemma handleSend_App_surfaces:
  "alerts (fst (handleSend_App lb tp ai c w)) \<noteq> alerts c"
  by (auto simp: handleSend_App_def send_try_App_def Let_def
      split: option.splits prod.splits sum.splits)

text \<open>
  With inputs that pass the checks, a blockhash fetched and the transaction built, a
  handler submits one transaction and no other.
\<close>

lemma handleSend_confirm_submits:
  assumes pk: "publicKey c = Some pk"
    and ok: "\<not> amount_rejected (parseFloat lb sendAmount)" "PublicKey_valid lb toAddress"
    and f: "getLatestBlockhash w = (Inr (slot, l), w1)"
    and b: "build_error lb \<lparr>feePayer = Some pk, recentBlockhash = Some (blockhash l), fromPubkey = pk,
          toPubkey = toAddress,
          lamports = Math_round (times_LAMPORTS_PER_SOL (parseFloat lb sendAmount))\<rparr> = None"
    and run: "handleSend_confirm fuel lb toAddress sendAmount c w = Some (c', w')"
  shows "\<exists>rest. calls w' = calls w @
           [GetBlockhash (clock w),
            SendTransaction (clock w1)
              \<lparr>feePayer = Some pk, recentBlockhash = Some (blockhash l), fromPubkey = pk,
                toPubkey = toAddress,
                lamports = Math_round (times_LAMPORTS_PER_SOL (parseFloat lb sendAmount))\<rparr> None] @ rest \<and>
         count_calls is_SendTransaction rest = 0"
proof -
  let ?tx = "\<lparr>feePayer = Some pk, recentBlockhash = Some (blockhash l), fromPubkey = pk,
                toPubkey = toAddress,
                lamports = Math_round (times_LAMPORTS_PER_SOL (parseFloat lb sendAmount))\<rparr>"
  obtain reply w2 where s: "sendTransaction ?tx None w1 = (reply, w2)" by force
  from getLatestBlockhash_calls [OF f] have c1: "calls w1 = calls w @ [GetBlockhash (clock w)]"
    by simp
  from sendTransaction_calls [OF s] c1
  have c2: "calls w2 = calls w @ [GetBlockhash (clock w), SendTransaction (clock w1) ?tx None]"
    by simp
  show ?thesis
  proof (cases reply)
    case (Inl err)
    with run pk ok f b s have "w' = w2"
      by (auto simp: handleSend_confirm_def send_try_confirm_def amount_rejected_def Let_def
          lamports_of_amount_rounded_def)
    with c2 show ?thesis by simp
  next
    case (Inr sg)
    with run pk ok f b s obtain r where
      "confirmTransactionWithRetry fuel sg l default_timeout default_retryInterval w2 = Some (r, w')"
      by (auto simp: handleSend_confirm_def send_try_confirm_def amount_rejected_def Let_def
          lamports_of_amount_rounded_def split: option.splits sum.splits if_splits)
    then have "confirm_loop fuel sg (clock w2) default_timeout default_retryInterval l w2 = Some (r, w')"
      by (simp add: confirmTransactionWithRetry_def)
    from confirm_loop_sends_nothing [OF this] c2 show ?thesis by auto
  qed
qed

lemma handleSend_App_submits:
  assumes pk: "publicKey c = Some pk"
    and ok: "\<not> recipient_rejected lb (Some to)" "\<not> amount_rejected (parseFloat_prompt lb amountInput)"
    and b: "build_error lb \<lparr>feePayer = None, recentBlockhash = None, fromPubkey = pk,
          toPubkey = to, lamports = times_LAMPORTS_PER_SOL (parseFloat_prompt lb amountInput)\<rparr> = None"
    and f: "getLatestBlockhash w = (Inr (slot, l), w1)"
    and run: "handleSend_App lb (Some to) amountInput c w = (c', w')"
  shows "\<exists>rest. calls w' = calls w @
           [GetBlockhash (clock w),
            SendTransaction (clock w1)
              \<lparr>feePayer = Some pk, recentBlockhash = Some (blockhash l), fromPubkey = pk,
                toPubkey = to,
                lamports = times_LAMPORTS_PER_SOL (parseFloat_prompt lb amountInput)\<rparr> None] @ rest \<and>
         count_calls is_SendTransaction rest = 0"
proof -
  let ?tx = "\<lparr>feePayer = Some pk, recentBlockhash = Some (blockhash l), fromPubkey = pk,
                toPubkey = to,
                lamports = times_LAMPORTS_PER_SOL (parseFloat_prompt lb amountInput)\<rparr>"
  obtain reply w2 where s: "sendTransaction ?tx None w1 = (reply, w2)" by force
  from getLatestBlockhash_calls [OF f] have c1: "calls w1 = calls w @ [GetBlockhash (clock w)]"
    by simp
  from sendTransaction_calls [OF s] c1
  have c2: "calls w2 = calls w @ [GetBlockhash (clock w), SendTransaction (clock w1) ?tx None]"
    by simp
  show ?thesis
  proof (cases reply)
    case (Inl err)
    with run pk ok f b s have "w' = w2"
      by (auto simp: handleSend_App_def send_try_App_def amount_rejected_def recipient_rejected_def
          Let_def lamports_of_amount_def)
    with c2 show ?thesis by simp
  next
    case (Inr sg)
    obtain reply3 w3 where c: "confirmTransaction sg None None w2 = (reply3, w3)" by force
    with Inr run pk ok f b s have "w' = w3"
      by (cases reply3)
        (auto simp: handleSend_App_def send_try_App_def amount_rejected_def recipient_rejected_def
          Let_def lamports_of_amount_def)
    with confirmTransaction_calls [OF c] c2 show ?thesis by (simp add: count_calls_def)
  qed
qed

section \<open>Facts about hex digits\<close>

lemma toString16_small: "n < 16 \<Longrightarrow> toString16 n = [hex_alphabet ! n]"
  by (subst toString16.simps) simp

lemma toString16_two_digits:
  assumes "16 \<le> n" "n < 256"
  shows "toString16 n = [hex_alphabet ! (n div 16), hex_alphabet ! (n mod 16)]"
proof -
  from assms(2) have "n div 16 < 16" by simp
  then have "toString16 (n div 16) = [hex_alphabet ! (n div 16)]" by (rule toString16_small)
  with assms(1) show ?thesis by (subst toString16.simps) simp
qed

lemma hex_alphabet_0: "hex_alphabet ! 0 = CHR ''0''"
  by (simp add: hex_alphabet_def)

lemma byte_hex:
  fixes b :: byte
  shows "padStart 2 (CHR ''0'') (toString16 (unat b)) =
         [hex_alphabet ! unat (drop_bit 4 b), hex_alphabet ! unat (take_bit 4 b)]"
proof -
  have bound: "unat b < 256" using unsigned_less [of b] by simp
  have "unat (drop_bit 4 b) = drop_bit 4 (unat b)" by (rule unat_drop_bit_eq)
  also have "\<dots> = unat b div 16" by (simp add: drop_bit_eq_div)
  finally have hi: "unat (drop_bit 4 b) = unat b div 16" .
  have "unat (take_bit 4 b) = take_bit 4 (unat b)" by (rule unsigned_take_bit_eq)
  also have "\<dots> = unat b mod 16" by (simp add: take_bit_eq_mod)
  finally have lo: "unat (take_bit 4 b) = unat b mod 16" .
  show ?thesis
  proof (cases "unat b < 16")
    case True
    then show ?thesis
      by (simp add: toString16_small padStart_def hi lo hex_alphabet_0)
  next
    case False
    with bound have "toString16 (unat b) =
        [hex_alphabet ! (unat b div 16), hex_alphabet ! (unat b mod 16)]"
      by (intro toString16_two_digits) simp_all
    then show ?thesis by (simp add: padStart_def hi lo)
  qed
qed

section \<open>Claims about \<open>confirmTransactionWithRetry\<close>\<close>

text \<open>
  C1, as stated, fails: the helper never sends the transaction again. On a first
  attempt answered with \<open>blockhash expired\<close> it requests one blockhash and polls again
  for the same signature; the run has no \<open>sendTransaction\<close> call.
\<close>

theorem expiry_resubmits_counterexample:
  "on_confirm expires_once 0 = (100, Inl (new_Error ''blockhash expired'')) \<and>
   blockhash_expired (new_Error ''blockhash expired'') \<and>
   confirmTransactionWithRetry 5 ''sig'' lease1 60000 2000 expires_once =
     Some (Inr ''success'', expires_once_end) \<and>
   calls expires_once_end =
     [ConfirmTransaction 0 ''sig'' (Some lease1) None, GetBlockhash 100,
      ConfirmTransaction 2110 ''sig'' (Some lease2) None] \<and>
   count_calls is_SendTransaction (calls expires_once_end) = 0"
  using run_expires_once by (simp add: expires_once_def)

text \<open>
  C1, amended. Take a pass of the helper's loop in which the deadline has not passed
  and the confirmation request is rejected with a message that holds one of the two
  phrases. Then the helper asks for one blockhash, and that is all it has done so far.
  If this request is rejected, the helper throws that rejection. Otherwise it sets one
  timer, and after it: if the deadline has passed it returns \<open>timeout\<close>; if not, its next
  call is a confirmation request for the same signature under the lease just fetched,
  and it returns \<open>success\<close> for a confirmation, throws \<open>Transaction failed\<close> for a
  confirmation that carries an error value, throws a rejection that holds neither
  phrase, and asks for one more blockhash after a rejection that holds one. The helper
  is this loop, entered with the clock reading at entry as start time. In a whole run
  of the helper the blockhash requests are as many as the rejections with one of the
  phrases, the confirmation requests are all for the signature the helper was given,
  under the lease it was given and then, in order, under the leases fetched, and no
  transaction is sent.
\<close>

theorem expiry_refetches_and_polls_again:
  "(clock w - startTime < timeout \<and>
    confirmTransaction sg (Some l) None w = (Inl err, w1) \<and> has_expiry_phrase err \<and>
    getLatestBlockhash w1 = (fetched, w2) \<longrightarrow>
      calls w2 = calls w @ [ConfirmTransaction (clock w) sg (Some l) None, GetBlockhash (clock w1)] \<and>
      (\<forall>err2. fetched = Inl err2 \<longrightarrow>
         confirm_loop (Suc fuel) sg startTime timeout retryInterval l w = Some (Inl err2, w2)) \<and>
      (\<forall>slot l2. fetched = Inr (slot, l2) \<longrightarrow>
         calls (sleep retryInterval w2) = calls w2 \<and>
         timers (sleep retryInterval w2) = Suc (timers w) \<and>
         (\<not> clock (sleep retryInterval w2) - startTime < timeout \<longrightarrow>
            confirm_loop (Suc (Suc fuel)) sg startTime timeout retryInterval l w =
              Some (Inr ''timeout'', sleep retryInterval w2)) \<and>
         (clock (sleep retryInterval w2) - startTime < timeout \<longrightarrow>
            confirm_loop (Suc (Suc fuel)) sg startTime timeout retryInterval l w =
              (case confirmTransaction sg (Some l2) None (sleep retryInterval w2) of
                 (Inr False, w4) \<Rightarrow> Some (Inr ''success'', w4)
               | (Inr True, w4) \<Rightarrow> Some (Inl (new_Error ''Transaction failed''), w4)
               | (Inl err4, w4) \<Rightarrow>
                   if has_expiry_phrase err4 then
                     (case getLatestBlockhash w4 of
                        (Inl err5, w5) \<Rightarrow> Some (Inl err5, w5)
                      | (Inr (slot5, l5), w5) \<Rightarrow>
                          confirm_loop fuel sg startTime timeout retryInterval l5
                            (sleep retryInterval w5))
                   else Some (Inl err4, w4))))) \<and>
   confirmTransactionWithRetry fuel sg l timeout retryInterval w =
     confirm_loop fuel sg (clock w) timeout retryInterval l w \<and>
   (confirmTransactionWithRetry fuel sg l timeout retryInterval w = Some (r, w') \<longrightarrow>
      (\<exists>new. calls w' = calls w @ new \<and>
         (\<forall>c \<in> set new. is_GetBlockhash c \<or> (\<exists>t l'. c = ConfirmTransaction t sg (Some l') None)) \<and>
         count_calls is_SendTransaction new = 0 \<and>
         count_calls is_GetBlockhash new =
           length (filter (\<lambda>k. expiry_rejection (snd (on_confirm w k)))
             [count_calls is_ConfirmTransaction (calls w) ..<
              count_calls is_ConfirmTransaction (calls w')]) \<and>
         prefix (map lease_used (filter is_ConfirmTransaction new))
           (Some l # map (fetched_lease w)
              [count_calls is_GetBlockhash (calls w) ..< count_calls is_GetBlockhash (calls w')])))"
proof (intro conjI impI allI)
  assume a: "clock w - startTime < timeout \<and>
    confirmTransaction sg (Some l) None w = (Inl err, w1) \<and> has_expiry_phrase err \<and>
    getLatestBlockhash w1 = (fetched, w2)"
  then have g: "clock w - startTime < timeout"
    and c: "confirmTransaction sg (Some l) None w = (Inl err, w1)"
    and p: "has_expiry_phrase err" and f: "getLatestBlockhash w1 = (fetched, w2)"
    by simp_all
  note step = confirm_loop_expired [OF g c p]
  from confirmTransaction_calls [OF c] getLatestBlockhash_calls [OF f]
  show "calls w2 = calls w @ [ConfirmTransaction (clock w) sg (Some l) None, GetBlockhash (clock w1)]"
    by simp
  from confirmTransaction_calls [OF c] getLatestBlockhash_calls [OF f]
  have tm: "timers w2 = timers w" by simp
  {
    fix err2 assume "fetched = Inl err2"
    with step [of fuel retryInterval] f
    show "confirm_loop (Suc fuel) sg startTime timeout retryInterval l w = Some (Inl err2, w2)"
      by simp
  }
  {
    fix slot l2 assume fe: "fetched = Inr (slot, l2)"
    show "calls (sleep retryInterval w2) = calls w2" by simp
    show "timers (sleep retryInterval w2) = Suc (timers w)" by (simp add: tm)
    from step [of "Suc fuel" retryInterval] f fe
    have s2: "confirm_loop (Suc (Suc fuel)) sg startTime timeout retryInterval l w =
        confirm_loop (Suc fuel) sg startTime timeout retryInterval l2 (sleep retryInterval w2)"
      by simp
    {
      assume "\<not> clock (sleep retryInterval w2) - startTime < timeout"
      from confirm_loop_deadline [OF this] s2
      show "confirm_loop (Suc (Suc fuel)) sg startTime timeout retryInterval l w =
              Some (Inr ''timeout'', sleep retryInterval w2)"
        by simp
    }
    {
      assume g2: "clock (sleep retryInterval w2) - startTime < timeout"
      show "confirm_loop (Suc (Suc fuel)) sg startTime timeout retryInterval l w =
              (case confirmTransaction sg (Some l2) None (sleep retryInterval w2) of
                 (Inr False, w4) \<Rightarrow> Some (Inr ''success'', w4)
               | (Inr True, w4) \<Rightarrow> Some (Inl (new_Error ''Transaction failed''), w4)
               | (Inl err4, w4) \<Rightarrow>
                   if has_expiry_phrase err4 then
                     (case getLatestBlockhash w4 of
                        (Inl err5, w5) \<Rightarrow> Some (Inl err5, w5)
                      | (Inr (slot5, l5), w5) \<Rightarrow>
                          confirm_loop fuel sg startTime timeout retryInterval l5
                            (sleep retryInterval w5))
                   else Some (Inl err4, w4))"
        unfolding s2 using g2
        by (auto simp: has_expiry_phrase_iff split: prod.splits sum.splits)
    }
  }
next
  show "confirmTransactionWithRetry fuel sg l timeout retryInterval w =
     confirm_loop fuel sg (clock w) timeout retryInterval l w"
    by (simp add: confirmTransactionWithRetry_def)
next
  assume "confirmTransactionWithRetry fuel sg l timeout retryInterval w = Some (r, w')"
  then have run: "confirm_loop fuel sg (clock w) timeout retryInterval l w = Some (r, w')"
    by (simp add: confirmTransactionWithRetry_def)
  from confirm_loop_calls [OF run] obtain new where
    new: "calls w' = calls w @ new"
      "\<forall>c \<in> set new. is_GetBlockhash c \<or>
          (\<exists>t l'. c = ConfirmTransaction t sg (Some l') None \<and> t - clock w < timeout)"
    by blast
  have "\<not> is_SendTransaction c" if "c \<in> set new" for c
    using new(2) that by (cases c) auto
  then have "filter is_SendTransaction new = []"
    by (simp add: filter_empty_conv)
  then have a: "count_calls is_SendTransaction new = 0" by (simp add: count_calls_def)
  have er: "(\<lambda>k. expiry_rejection (snd (on_confirm w k))) = (\<lambda>k. expired_reply (snd (on_confirm w k)))"
    by (simp add: expiry_rejection_iff)
  from confirm_loop_fetches [OF run] have b: "count_calls is_GetBlockhash new =
        length (filter (\<lambda>k. expiry_rejection (snd (on_confirm w k)))
          [count_calls is_ConfirmTransaction (calls w) ..< count_calls is_ConfirmTransaction (calls w')])"
    by (simp add: new(1) er)
  from confirm_loop_leases [OF run] have c: "prefix (map lease_used (filter is_ConfirmTransaction new))
        (Some l # map (fetched_lease w)
           [count_calls is_GetBlockhash (calls w) ..< count_calls is_GetBlockhash (calls w')])"
    by (simp add: new(1))
  from new(2) have d: "\<forall>c \<in> set new. is_GetBlockhash c \<or>
      (\<exists>t l'. c = ConfirmTransaction t sg (Some l') None)"
    by blast
  from new(1) a b c d show "\<exists>new. calls w' = calls w @ new \<and>
         (\<forall>c \<in> set new. is_GetBlockhash c \<or> (\<exists>t l'. c = ConfirmTransaction t sg (Some l') None)) \<and>
         count_calls is_SendTransaction new = 0 \<and>
         count_calls is_GetBlockhash new =
           length (filter (\<lambda>k. expiry_rejection (snd (on_confirm w k)))
             [count_calls is_ConfirmTransaction (calls w) ..<
              count_calls is_ConfirmTransaction (calls w')]) \<and>
         prefix (map lease_used (filter is_ConfirmTransaction new))
           (Some l # map (fetched_lease w)
              [count_calls is_GetBlockhash (calls w) ..< count_calls is_GetBlockhash (calls w')])"
    by blast
qed

text \<open>
  The run in which the first attempt meets an expired blockhash, and a run in which the
  blockhash request that follows is rejected, as instances.
\<close>

theorem expiry_refetches_and_polls_again_witness:
  "clock expires_once - 0 < 60000 \<and>
   confirmTransaction ''sig'' (Some lease1) None expires_once =
     (Inl (new_Error ''blockhash expired''), expires_once_polled) \<and>
   has_expiry_phrase (new_Error ''blockhash expired'') \<and>
   getLatestBlockhash expires_once_polled = (Inr (7, lease2), expires_once_fetched) \<and>
   calls expires_once_fetched =
     [ConfirmTransaction 0 ''sig'' (Some lease1) None, GetBlockhash 100] \<and>
   clock (sleep 2000 expires_once_fetched) - 0 < 60000 \<and>
   confirmTransaction ''sig'' (Some lease2) None (sleep 2000 expires_once_fetched) =
     (Inr False, expires_once_end) \<and>
   confirm_loop (Suc (Suc 0)) ''sig'' 0 60000 2000 lease1 expires_once =
     Some (Inr ''success'', expires_once_end) \<and>
   calls expires_once_end =
     [ConfirmTransaction 0 ''sig'' (Some lease1) None, GetBlockhash 100,
      ConfirmTransaction 2110 ''sig'' (Some lease2) None] \<and>
   confirmTransaction ''sig'' (Some lease1) None fetch_fails =
     (Inl (new_Error ''Blockhash not found''), fetch_fails_polled) \<and>
   has_expiry_phrase (new_Error ''Blockhash not found'') \<and>
   getLatestBlockhash fetch_fails_polled =
     (Inl (new_Error ''Network request failed''), fetch_fails_end) \<and>
   confirm_loop (Suc 0) ''sig'' 0 60000 2000 lease1 fetch_fails =
     Some (Inl (new_Error ''Network request failed''), fetch_fails_end) \<and>
   confirmTransactionWithRetry 5 ''sig'' lease1 60000 2000 expires_once =
     Some (Inr ''success'', expires_once_end) \<and>
   (\<exists>new. calls expires_once_end = calls expires_once @ new \<and>
      count_calls is_SendTransaction new = 0 \<and>
      count_calls is_GetBlockhash new =
        length (filter (\<lambda>k. expiry_rejection (snd (on_confirm expires_once k)))
          [count_calls is_ConfirmTransaction (calls expires_once) ..<
           count_calls is_ConfirmTransaction (calls expires_once_end)]) \<and>
      prefix (map lease_used (filter is_ConfirmTransaction new))
        (Some lease1 # map (fetched_lease expires_once)
           [count_calls is_GetBlockhash (calls expires_once) ..<
            count_calls is_GetBlockhash (calls expires_once_end)]))"
proof -
  note a = expiry_refetches_and_polls_again [where w = expires_once and startTime = 0
      and timeout = 60000 and sg = "''sig''" and l = lease1
      and err = "new_Error ''blockhash expired''" and ?w1.0 = expires_once_polled
      and fetched = "Inr (7, lease2)" and ?w2.0 = expires_once_fetched and fuel = 0
      and retryInterval = 2000]
  note b = expiry_refetches_and_polls_again [where w = fetch_fails and startTime = 0
      and timeout = 60000 and sg = "''sig''" and l = lease1
      and err = "new_Error ''Blockhash not found''" and ?w1.0 = fetch_fails_polled
      and fetched = "Inl (new_Error ''Network request failed'')" and ?w2.0 = fetch_fails_end
      and fuel = 0 and retryInterval = 2000]
  note c = expiry_refetches_and_polls_again [where w = expires_once and fuel = 5
      and timeout = 60000 and sg = "''sig''" and l = lease1 and retryInterval = 2000
      and r = "Inr ''success''" and w' = expires_once_end]
  have 1: "confirm_loop (Suc (Suc 0)) ''sig'' 0 60000 2000 lease1 expires_once =
     Some (Inr ''success'', expires_once_end)"
    using a steps_expires_once by simp
  have 2: "confirm_loop (Suc 0) ''sig'' 0 60000 2000 lease1 fetch_fails =
     Some (Inl (new_Error ''Network request failed''), fetch_fails_end)"
    using b steps_fetch_fails by simp
  have 3: "\<exists>new. calls expires_once_end = calls expires_once @ new \<and>
      count_calls is_SendTransaction new = 0 \<and>
      count_calls is_GetBlockhash new =
        length (filter (\<lambda>k. expiry_rejection (snd (on_confirm expires_once k)))
          [count_calls is_ConfirmTransaction (calls expires_once) ..<
           count_calls is_ConfirmTransaction (calls expires_once_end)]) \<and>
      prefix (map lease_used (filter is_ConfirmTransaction new))
        (Some lease1 # map (fetched_lease expires_once)
           [count_calls is_GetBlockhash (calls expires_once) ..<
            count_calls is_GetBlockhash (calls expires_once_end)])"
    using c run_expires_once by blast
  show ?thesis
    by (intro conjI) (rule 1 2 3 steps_expires_once steps_fetch_fails run_expires_once
        phrase_examples end_simps)+
qed



text \<open>
  C6, as stated, fails in the loop with a bounded number of retries, which looks for
  \<open>Blockhash\<close> with a capital letter. A confirmation request rejected with
  \<open>blockhash expired\<close>, a message that holds one of the two phrases, is not retried
  there: the handler makes one pass, sets no timer and shows the error.
\<close>

theorem bounded_loop_retries_on_Blockhash_counterexample:
  "str_includes (message (new_Error ''blockhash expired'')) ''blockhash expired'' \<and>
   confirmTransaction ''sig'' (Some lease2) (Some 7) (sent_at_10 expires_once) =
     (Inl (new_Error ''blockhash expired''), expires_once_given_up) \<and>
   handleSend_bounded lib0 (Some ''recipient'') (Some ''1'') connected expires_once =
     (raise_alert (AlertFailed ''blockhash expired'')
        (connected\<lparr>error := Some ''blockhash expired''\<rparr>), expires_once_given_up) \<and>
   calls expires_once_given_up =
     [GetBlockhash 0, SendTransaction 10 transfer_of_one (Some 7),
      ConfirmTransaction 15 ''sig'' (Some lease2) (Some 7)] \<and>
   timers expires_once_given_up = 0"
proof -
  have a: "str_includes (message (new_Error ''blockhash expired'')) ''blockhash expired''"
    by (simp add: str_includes_def new_Error_def)
  have b: "confirmTransaction ''sig'' (Some lease2) (Some 7) (sent_at_10 expires_once) =
     (Inl (new_Error ''blockhash expired''), expires_once_given_up)"
    by (simp add: confirmTransaction_def sent_at_10_def fetched_at_0_def expires_once_def
        expires_once_given_up_def scripted_def issue_def)
  have c: "calls expires_once_given_up =
     [GetBlockhash 0, SendTransaction 10 transfer_of_one (Some 7),
      ConfirmTransaction 15 ''sig'' (Some lease2) (Some 7)]"
    "timers expires_once_given_up = 0"
    by (simp_all add: expires_once_given_up_def expires_once_def)
  show ?thesis by (intro conjI) (rule a b c run_expires_once_bounded)+
qed

text \<open>
  C6, amended: each loop has its own test. In the loop of
  \<open>confirmTransactionWithRetry\<close> a rejected confirmation request is retried (a blockhash
  is requested, and the loop goes on after the timer) exactly when the message of the
  rejection contains \<open>Blockhash not found\<close> or \<open>blockhash expired\<close>; with neither,
  the helper throws the rejection to its caller. In the loop with a bounded number of
  retries a rejected confirmation request is retried (after a timer of 1000 ms, with
  one retry fewer) exactly when the message contains \<open>Blockhash\<close>; without it the loop
  throws the rejection, and the handler shows it and stops loading.
\<close>

theorem retry_tests_of_the_two_loops:
  "(clock w - startTime < timeout \<and>
    confirmTransaction sg (Some l) None w = (Inl err, w1) \<longrightarrow>
      confirm_loop (Suc fuel) sg startTime timeout retryInterval l w =
        (if str_includes (message err) ''Blockhash not found'' \<or>
            str_includes (message err) ''blockhash expired''
         then (case getLatestBlockhash w1 of
                 (Inl err2, w2) \<Rightarrow> Some (Inl err2, w2)
               | (Inr (slot, newBlockData), w2) \<Rightarrow>
                   confirm_loop fuel sg startTime timeout retryInterval newBlockData
                     (sleep retryInterval w2))
         else Some (Inl err, w1))) \<and>
   (0 < timeout \<and> confirmTransaction sg (Some l) None w = (Inl err, w1) \<and>
    \<not> str_includes (message err) ''Blockhash not found'' \<and>
    \<not> str_includes (message err) ''blockhash expired'' \<longrightarrow>
      confirmTransactionWithRetry (Suc fuel) sg l timeout retryInterval w = Some (Inl err, w1)) \<and>
   (getLatestBlockhash w = (Inr (minContextSlot, l), w1) \<and>
    tx = \<lparr>feePayer = Some pk, recentBlockhash = Some (blockhash l), fromPubkey = pk,
          toPubkey = to, lamports = lamports_of_amount amount\<rparr> \<and>
    build_error lb tx = None \<and>
    sendTransaction tx (Some minContextSlot) w1 = (Inr sg, w2) \<and>
    confirmTransaction sg (Some l) (Some minContextSlot) w2 = (Inl err, w3) \<longrightarrow>
      send_attempts (Suc retries) lb pk to amount c w =
        (if str_includes (message err) ''Blockhash''
         then send_attempts retries lb pk to amount c (sleep 1000 w3)
         else (Some err, c, w3))) \<and>
   (publicKey c = Some pk \<and> \<not> recipient_rejected lb (Some to) \<and>
    amount = parseFloat_prompt lb amountInput \<and> \<not> amount_rejected amount \<and>
    getLatestBlockhash w = (Inr (minContextSlot, l), w1) \<and>
    tx = \<lparr>feePayer = Some pk, recentBlockhash = Some (blockhash l), fromPubkey = pk,
          toPubkey = to, lamports = lamports_of_amount amount\<rparr> \<and>
    build_error lb tx = None \<and>
    sendTransaction tx (Some minContextSlot) w1 = (Inr sg, w2) \<and>
    confirmTransaction sg (Some l) (Some minContextSlot) w2 = (Inl err, w3) \<and>
    \<not> str_includes (message err) ''Blockhash'' \<longrightarrow>
      handleSend_bounded lb (Some to) amountInput c w =
        ((raise_alert (AlertFailed (errorMessage_bounded err))
            (c\<lparr>loading := True, error := Some (errorMessage_bounded err)\<rparr>))\<lparr>loading := False\<rparr>,
         w3))"
proof (intro conjI impI)
  assume "clock w - startTime < timeout \<and>
    confirmTransaction sg (Some l) None w = (Inl err, w1)"
  then show "confirm_loop (Suc fuel) sg startTime timeout retryInterval l w =
        (if str_includes (message err) ''Blockhash not found'' \<or>
            str_includes (message err) ''blockhash expired''
         then (case getLatestBlockhash w1 of
                 (Inl err2, w2) \<Rightarrow> Some (Inl err2, w2)
               | (Inr (slot, newBlockData), w2) \<Rightarrow>
                   confirm_loop fuel sg startTime timeout retryInterval newBlockData
                     (sleep retryInterval w2))
         else Some (Inl err, w1))"
    by (simp add: blockhash_expired_def)
next
  assume "0 < timeout \<and> confirmTransaction sg (Some l) None w = (Inl err, w1) \<and>
    \<not> str_includes (message err) ''Blockhash not found'' \<and>
    \<not> str_includes (message err) ''blockhash expired''"
  then show "confirmTransactionWithRetry (Suc fuel) sg l timeout retryInterval w = Some (Inl err, w1)"
    by (simp add: confirmTransactionWithRetry_def blockhash_expired_def)
next
  assume "getLatestBlockhash w = (Inr (minContextSlot, l), w1) \<and>
    tx = \<lparr>feePayer = Some pk, recentBlockhash = Some (blockhash l), fromPubkey = pk,
          toPubkey = to, lamports = lamports_of_amount amount\<rparr> \<and>
    build_error lb tx = None \<and>
    sendTransaction tx (Some minContextSlot) w1 = (Inr sg, w2) \<and>
    confirmTransaction sg (Some l) (Some minContextSlot) w2 = (Inl err, w3)"
  then show "send_attempts (Suc retries) lb pk to amount c w =
        (if str_includes (message err) ''Blockhash''
         then send_attempts retries lb pk to amount c (sleep 1000 w3)
         else (Some err, c, w3))"
    by (clarsimp simp: send_attempt_def Let_def)
next
  assume a: "publicKey c = Some pk \<and> \<not> recipient_rejected lb (Some to) \<and>
    amount = parseFloat_prompt lb amountInput \<and> \<not> amount_rejected amount \<and>
    getLatestBlockhash w = (Inr (minContextSlot, l), w1) \<and>
    tx = \<lparr>feePayer = Some pk, recentBlockhash = Some (blockhash l), fromPubkey = pk,
          toPubkey = to, lamports = lamports_of_amount amount\<rparr> \<and>
    build_error lb tx = None \<and>
    sendTransaction tx (Some minContextSlot) w1 = (Inr sg, w2) \<and>
    confirmTransaction sg (Some l) (Some minContextSlot) w2 = (Inl err, w3) \<and>
    \<not> str_includes (message err) ''Blockhash''"
  then have "send_attempts 3 lb pk to amount (c\<lparr>loading := True, error := None\<rparr>) w =
      (Some err, c\<lparr>loading := True, error := None\<rparr>, w3)"
    by (clarsimp simp: numeral_3_eq_3 send_attempt_def Let_def)
  with a show "handleSend_bounded lb (Some to) amountInput c w =
        ((raise_alert (AlertFailed (errorMessage_bounded err))
            (c\<lparr>loading := True, error := Some (errorMessage_bounded err)\<rparr>))\<lparr>loading := False\<rparr>,
         w3)"
    by (clarsimp simp: handleSend_bounded_def recipient_rejected_def amount_rejected_def Let_def)
qed

text \<open>
  Both tests met and both tests failed, as instances: \<open>blockhash expired\<close> and
  \<open>Network request failed\<close> in the loop of the helper, \<open>Blockhash not found\<close> and
  \<open>blockhash expired\<close> in the bounded loop.
\<close>

theorem retry_tests_of_the_two_loops_witness:
  "clock expires_once - 0 < 60000 \<and> (0::nat) < 60000 \<and>
   confirmTransaction ''sig'' (Some lease1) None expires_once =
     (Inl (new_Error ''blockhash expired''), expires_once_polled) \<and>
   str_includes (message (new_Error ''blockhash expired'')) ''blockhash expired'' \<and>
   getLatestBlockhash expires_once_polled = (Inr (7, lease2), expires_once_fetched) \<and>
   confirm_loop (Suc 0) ''sig'' 0 60000 2000 lease1 expires_once =
     confirm_loop 0 ''sig'' 0 60000 2000 lease2 (sleep 2000 expires_once_fetched) \<and>
   confirmTransaction ''sig'' (Some lease1) None network_fails =
     (Inl (new_Error ''Network request failed''), network_fails_end) \<and>
   \<not> str_includes (message (new_Error ''Network request failed'')) ''Blockhash not found'' \<and>
   \<not> str_includes (message (new_Error ''Network request failed'')) ''blockhash expired'' \<and>
   confirm_loop (Suc 0) ''sig'' 0 60000 2000 lease1 network_fails =
     Some (Inl (new_Error ''Network request failed''), network_fails_end) \<and>
   confirmTransactionWithRetry (Suc 0) ''sig'' lease1 60000 2000 network_fails =
     Some (Inl (new_Error ''Network request failed''), network_fails_end) \<and>
   getLatestBlockhash always_expired = (Inr (7, lease2), fetched_at_0 always_expired) \<and>
   build_error lib0 transfer_of_one = None \<and>
   sendTransaction transfer_of_one (Some 7) (fetched_at_0 always_expired) =
     (Inr ''sig'', sent_at_10 always_expired) \<and>
   confirmTransaction ''sig'' (Some lease2) (Some 7) (sent_at_10 always_expired) =
     (Inl (new_Error ''Blockhash not found''), polled_at_15 always_expired) \<and>
   str_includes (message (new_Error ''Blockhash not found'')) ''Blockhash'' \<and>
   send_attempts (Suc 0) lib0 ''payer'' ''recipient'' (Finite 1) connected always_expired =
     send_attempts 0 lib0 ''payer'' ''recipient'' (Finite 1) connected
       (sleep 1000 (polled_at_15 always_expired)) \<and>
   publicKey connected = Some ''payer'' \<and>
   getLatestBlockhash expires_once = (Inr (7, lease2), fetched_at_0 expires_once) \<and>
   sendTransaction transfer_of_one (Some 7) (fetched_at_0 expires_once) =
     (Inr ''sig'', sent_at_10 expires_once) \<and>
   confirmTransaction ''sig'' (Some lease2) (Some 7) (sent_at_10 expires_once) =
     (Inl (new_Error ''blockhash expired''), polled_at_15 expires_once) \<and>
   \<not> str_includes (message (new_Error ''blockhash expired'')) ''Blockhash'' \<and>
   send_attempts (Suc 0) lib0 ''payer'' ''recipient'' (Finite 1) connected expires_once =
     (Some (new_Error ''blockhash expired''), connected, polled_at_15 expires_once) \<and>
   handleSend_bounded lib0 (Some ''recipient'') (Some ''1'') connected expires_once =
     ((raise_alert (AlertFailed (errorMessage_bounded (new_Error ''blockhash expired'')))
         (connected\<lparr>loading := True,
            error := Some (errorMessage_bounded (new_Error ''blockhash expired''))\<rparr>))
        \<lparr>loading := False\<rparr>,
      polled_at_15 expires_once)"
proof -
  note a = retry_tests_of_the_two_loops [where w = expires_once and startTime = 0
      and timeout = 60000 and sg = "''sig''" and l = lease1
      and err = "new_Error ''blockhash expired''" and ?w1.0 = expires_once_polled
      and fuel = 0 and retryInterval = 2000]
  note b = retry_tests_of_the_two_loops [where w = network_fails and startTime = 0
      and timeout = 60000 and sg = "''sig''" and l = lease1
      and err = "new_Error ''Network request failed''" and ?w1.0 = network_fails_end
      and fuel = 0 and retryInterval = 2000]
  note c = retry_tests_of_the_two_loops [where w = always_expired and minContextSlot = 7
      and l = lease2 and ?w1.0 = "fetched_at_0 always_expired" and tx = transfer_of_one
      and pk = "''payer''" and to = "''recipient''" and amount = "Finite 1" and lb = lib0
      and sg = "''sig''" and ?w2.0 = "sent_at_10 always_expired"
      and err = "new_Error ''Blockhash not found''" and ?w3.0 = "polled_at_15 always_expired"
      and retries = 0 and c = connected]
  note d = retry_tests_of_the_two_loops [where w = expires_once and minContextSlot = 7
      and l = lease2 and ?w1.0 = "fetched_at_0 expires_once" and tx = transfer_of_one
      and pk = "''payer''" and to = "''recipient''" and amount = "Finite 1" and lb = lib0
      and sg = "''sig''" and ?w2.0 = "sent_at_10 expires_once"
      and err = "new_Error ''blockhash expired''" and ?w3.0 = "polled_at_15 expires_once"
      and retries = 0 and c = connected and amountInput = "Some ''1''"]
  have z: "(0::nat) < 60000" by simp
  have bl: "build_error lib0 transfer_of_one = None" by simp
  have pk: "publicKey connected = Some ''payer''" by (simp add: connected_def)
  have 1: "confirm_loop (Suc 0) ''sig'' 0 60000 2000 lease1 expires_once =
     confirm_loop 0 ''sig'' 0 60000 2000 lease2 (sleep 2000 expires_once_fetched)"
    using a steps_expires_once Blockhash_examples by simp
  have 2: "confirm_loop (Suc 0) ''sig'' 0 60000 2000 lease1 network_fails =
     Some (Inl (new_Error ''Network request failed''), network_fails_end)"
    "confirmTransactionWithRetry (Suc 0) ''sig'' lease1 60000 2000 network_fails =
     Some (Inl (new_Error ''Network request failed''), network_fails_end)"
    using b steps_network_fails Blockhash_examples by simp_all
  have 3: "send_attempts (Suc 0) lib0 ''payer'' ''recipient'' (Finite 1) connected always_expired =
     send_attempts 0 lib0 ''payer'' ''recipient'' (Finite 1) connected
       (sleep 1000 (polled_at_15 always_expired))"
    using c steps_bounded transfer_of_one_eq Blockhash_examples bl by simp
  have 4: "send_attempts (Suc 0) lib0 ''payer'' ''recipient'' (Finite 1) connected expires_once =
     (Some (new_Error ''blockhash expired''), connected, polled_at_15 expires_once)"
    using d steps_bounded transfer_of_one_eq Blockhash_examples bl by simp
  have 5: "handleSend_bounded lib0 (Some ''recipient'') (Some ''1'') connected expires_once =
     ((raise_alert (AlertFailed (errorMessage_bounded (new_Error ''blockhash expired'')))
         (connected\<lparr>loading := True,
            error := Some (errorMessage_bounded (new_Error ''blockhash expired''))\<rparr>))
        \<lparr>loading := False\<rparr>,
      polled_at_15 expires_once)"
    using d steps_bounded transfer_of_one_eq Blockhash_examples bl pk
    by (simp add: recipient_rejected_def amount_rejected_def parseFloat_prompt_def)
  show ?thesis
    by (intro conjI) (rule 1 2 3 4 5 z bl pk steps_expires_once steps_network_fails
        steps_bounded Blockhash_examples)+
qed

text \<open>
  C2, as stated, fails: a run without a confirmation can end in a thrown error. The
  deadline is looked at only before an attempt, and an attempt that fails with an
  error not taken for an expired blockhash makes the helper throw. Here the only
  attempt takes 70000 ms and is rejected; the budget of 60000 ms has run out, no
  confirmation has arrived, and the helper throws (\<open>Inl\<close>) instead of returning
  \<open>timeout\<close>.
\<close>

theorem timeout_without_confirmation_counterexample:
  "on_confirm fails_late 0 =
     (70000, Inl (new_Error ''Signature has expired: block height exceeded'')) \<and>
   confirmTransactionWithRetry 5 ''sig'' lease1 default_timeout default_retryInterval fails_late =
     Some (Inl (new_Error ''Signature has expired: block height exceeded''), fails_late_end) \<and>
   calls fails_late_end = [ConfirmTransaction 0 ''sig'' (Some lease1) None] \<and>
   clock fails_late + default_timeout \<le> clock fails_late_end"
  using run_fails_late
  by (simp add: fails_late_def fails_late_end_def scripted_def default_timeout_def)

text \<open>
  C2, amended: when every attempt is answered with an expired blockhash (the only
  answer after which the loop goes on) and every blockhash request succeeds, the
  helper returns the string \<open>timeout\<close>: a returned value (\<open>Inr\<close>), not a thrown error
  (\<open>Inl\<close>), and not \<open>success\<close>; and it returns at or after the deadline. The helper does
  return: \<open>fuel\<close> passes are enough when \<open>timeout + retryInterval \<le> fuel * retryInterval\<close>,
  which is 31 passes for the defaults of 60000 ms and 2000 ms.
\<close>

theorem no_confirmation_returns_timeout:
  assumes "\<forall>k. expired_reply (snd (on_confirm w k))"
    and "\<forall>k. fetched_lease w k \<noteq> None"
    and "0 < retryInterval"
    and "timeout + retryInterval \<le> fuel * retryInterval"
  shows "\<exists>w'. confirmTransactionWithRetry fuel sg l timeout retryInterval w = Some (Inr ''timeout'', w') \<and>
           clock w + timeout \<le> clock w'"
proof -
  from assms(4) have "(clock w + timeout - clock w) + retryInterval \<le> fuel * retryInterval" by simp
  from confirm_loop_times_out [OF assms(1,2,3) this]
  obtain w' where run: "confirm_loop fuel sg (clock w) timeout retryInterval l w = Some (Inr ''timeout'', w')"
    by blast
  from confirm_loop_frame [OF run] have "clock w \<le> clock w'" by blast
  with confirm_loop_timeout_clock [OF run]
  have "clock w + timeout \<le> clock w'" by linarith
  with run show ?thesis by (simp add: confirmTransactionWithRetry_def)
qed

text \<open>A world in which every attempt meets an expired blockhash, with the default budget.\<close>

theorem no_confirmation_returns_timeout_witness:
  "(\<forall>k. expired_reply (snd (on_confirm always_expired k))) \<and>
   (\<forall>k. fetched_lease always_expired k \<noteq> None) \<and>
   0 < default_retryInterval \<and>
   default_timeout + default_retryInterval \<le> 31 * default_retryInterval \<and>
   (\<exists>w'. confirmTransactionWithRetry 31 ''sig'' lease1 default_timeout default_retryInterval
            always_expired = Some (Inr ''timeout'', w') \<and>
          clock always_expired + default_timeout \<le> clock w')"
proof -
  have a: "\<forall>k. expired_reply (snd (on_confirm always_expired k))"
    by (simp add: always_expired_def expired_reply_def)
  have b: "\<forall>k. fetched_lease always_expired k \<noteq> None"
    by (simp add: always_expired_def fetched_lease_def)
  have c: "0 < default_retryInterval" by (simp add: default_retryInterval_def)
  have d: "default_timeout + default_retryInterval \<le> 31 * default_retryInterval"
    by (simp add: default_retryInterval_def default_timeout_def)
  from no_confirmation_returns_timeout [OF a b c d, of "''sig''" lease1] a b c d
  show ?thesis by blast
qed

text \<open>
  C5: the deadline is the clock reading at entry plus \<open>timeout\<close> and stays there however
  many times the blockhash is renewed: every confirmation call of a run is issued
  before it, and a run that returns \<open>timeout\<close> ends at or after it.
\<close>

theorem deadline_fixed_at_entry:
  assumes "confirmTransactionWithRetry fuel sg l timeout retryInterval w = Some (r, w')"
  shows "(\<forall>c \<in> set (drop (length (calls w)) (calls w')).
            is_ConfirmTransaction c \<longrightarrow> issued_at c < clock w + timeout) \<and>
         (r = Inr ''timeout'' \<longrightarrow> clock w + timeout \<le> clock w')"
proof -
  from assms have run: "confirm_loop fuel sg (clock w) timeout retryInterval l w = Some (r, w')"
    by (simp add: confirmTransactionWithRetry_def)
  from confirm_loop_calls [OF run] obtain new where
    new: "calls w' = calls w @ new"
      "\<forall>c \<in> set new. is_GetBlockhash c \<or>
          (\<exists>t l'. c = ConfirmTransaction t sg (Some l') None \<and> t - clock w < timeout)"
    by blast
  have "issued_at c < clock w + timeout" if "c \<in> set new" "is_ConfirmTransaction c" for c
  proof -
    from new(2) that obtain t l' where "c = ConfirmTransaction t sg (Some l') None" "t - clock w < timeout"
      by (cases c) auto
    then show ?thesis by simp
  qed
  moreover have "clock w + timeout \<le> clock w'" if "r = Inr ''timeout''"
  proof -
    from run that have "timeout \<le> clock w' - clock w"
      by (auto dest: confirm_loop_timeout_clock)
    moreover from confirm_loop_frame [OF run] have "clock w \<le> clock w'" by simp
    ultimately show ?thesis by simp
  qed
  ultimately show ?thesis by (simp add: new(1))
qed

text \<open>A budget of 5000 ms used up by three attempts, two of them after a renewed blockhash.\<close>

theorem deadline_fixed_at_entry_witness:
  "confirmTransactionWithRetry 5 ''sig'' lease1 5000 2000 always_expired =
     Some (Inr ''timeout'', always_expired_end) \<and>
   ConfirmTransaction 4220 ''sig'' (Some lease2) None
     \<in> set (drop (length (calls always_expired)) (calls always_expired_end)) \<and>
   is_ConfirmTransaction (ConfirmTransaction 4220 ''sig'' (Some lease2) None) \<and>
   issued_at (ConfirmTransaction 4220 ''sig'' (Some lease2) None) < clock always_expired + 5000 \<and>
   clock always_expired + 5000 \<le> clock always_expired_end"
proof -
  have m: "ConfirmTransaction 4220 ''sig'' (Some lease2) None
     \<in> set (drop (length (calls always_expired)) (calls always_expired_end))"
    by simp
  have c: "is_ConfirmTransaction (ConfirmTransaction 4220 ''sig'' (Some lease2) None)"
    by simp
  from deadline_fixed_at_entry [OF run_always_expired] m c
  have "issued_at (ConfirmTransaction 4220 ''sig'' (Some lease2) None) < clock always_expired + 5000"
    "clock always_expired + 5000 \<le> clock always_expired_end"
    by blast+
  with run_always_expired m c show ?thesis by blast
qed

section \<open>Claims about the handlers\<close>

text \<open>
  C4: when the recipient address is rejected or the amount is \<open>NaN\<close> or not positive,
  each of the three \<open>handleSend\<close> variants returns from its opening checks. The world
  it returns is the world it was given: no call was issued (no blockhash request, no
  send, no confirmation) and no timer was set; \<open>loading\<close> and \<open>error\<close> are untouched.
\<close>

theorem invalid_input_rejected_before_any_call:
  "(amount_rejected (parseFloat lb sendAmount) \<or> \<not> PublicKey_valid lb toAddress \<longrightarrow>
      (\<exists>c'. handleSend_confirm fuel lb toAddress sendAmount c w = Some (c', w) \<and>
            loading c' = loading c \<and> error c' = error c)) \<and>
   (recipient_rejected lb to_prompt \<or> amount_rejected (parseFloat_prompt lb amountInput) \<longrightarrow>
      (\<exists>c'. handleSend_App lb to_prompt amountInput c w = (c', w) \<and>
            loading c' = loading c \<and> error c' = error c) \<and>
      (\<exists>c'. handleSend_bounded lb to_prompt amountInput c w = (c', w) \<and>
            loading c' = loading c \<and> error c' = error c))"
  using handleSend_confirm_rejects [of lb sendAmount toAddress fuel c w]
    handleSend_App_rejects [of lb to_prompt amountInput c w]
    handleSend_bounded_rejects [of lb to_prompt amountInput c w]
  by blast

text \<open>An address the library rejects, and the amount \<open>-1\<close>, as instances.\<close>

theorem invalid_input_rejected_before_any_call_witness:
  "\<not> PublicKey_valid lib0 ''nowhere'' \<and>
   (\<exists>c'. handleSend_confirm 0 lib0 ''nowhere'' ''1'' connected expires_once = Some (c', expires_once) \<and>
         loading c' = loading connected \<and> error c' = error connected) \<and>
   amount_rejected (parseFloat_prompt lib0 (Some ''-1'')) \<and>
   (\<exists>c'. handleSend_App lib0 (Some ''recipient'') (Some ''-1'') connected expires_once = (c', expires_once) \<and>
         loading c' = loading connected \<and> error c' = error connected) \<and>
   (\<exists>c'. handleSend_bounded lib0 (Some ''recipient'') (Some ''-1'') connected expires_once = (c', expires_once) \<and>
         loading c' = loading connected \<and> error c' = error connected)"
proof -
  have a: "\<not> PublicKey_valid lib0 ''nowhere''" by (simp add: lib0_def)
  have b: "amount_rejected (parseFloat_prompt lib0 (Some ''-1''))"
    by (simp add: lib0_def amount_rejected_def parseFloat_prompt_def)
  from invalid_input_rejected_before_any_call [of lib0 "''1''" "''nowhere''" 0 connected
      expires_once "Some ''recipient''" "Some ''-1''"] a b
  show ?thesis by blast
qed

text \<open>
  C7: the claim asks that exhausting the retries still shows the user some outcome.
  The bounded variant does not do so. Its \<open>catch\<close> block tests \<open>retries > 0\<close> before it
  decrements, so the third error whose message contains \<open>Blockhash\<close> is not thrown
  on; the loop ends by its condition and the handler returns with no alert and no
  \<open>error\<close>. Evaluated on a wallet whose every send is rejected with
  \<open>Blockhash not found\<close>: three sends, and the component is what it was before. (The
  other two variants show something on every path, see \<open>handleSend_confirm_surfaces\<close>
  and \<open>handleSend_App_surfaces\<close>.)
\<close>

theorem exhausted_retries_surface_nothing:
  "handleSend_bounded lib0 (Some ''recipient'') (Some ''1'') connected send_rejected =
     (connected, send_rejected_end) \<and>
   count_calls is_SendTransaction (calls send_rejected_end) = 3 \<and>
   alerts connected = [] \<and> error connected = None"
  using run_send_rejected by (simp add: send_rejected_end_def connected_def)




text \<open>
  C9: for each handler that sets \<open>loading\<close> (both variants of \<open>requestAirdrop\<close>, the
  three of \<open>handleSend\<close>, both of \<open>handleSignMessage\<close>), \<open>loading\<close> after the handler is
  \<open>False\<close> on every path that went past the opening checks, whatever was thrown or
  timed out on the way, and is what it was before on the paths that return from
  those checks. Hence a handler entered with \<open>loading\<close> false, which is the initial
  state and the only one in which the button is enabled, returns with \<open>loading\<close> false.
\<close>

theorem loading_reset_on_every_exit:
  "loading (fst (requestAirdrop_App lb amountValue c w)) = (airdrop_returns_early lb amountValue c \<and> loading c) \<and>
   loading (fst (requestAirdrop_Buffer lb amountValue c w)) = (airdrop_returns_early lb amountValue c \<and> loading c) \<and>
   loading (fst (handleSend_App lb to_prompt amountInput c w)) =
     (send_returns_early lb to_prompt amountInput c \<and> loading c) \<and>
   loading (fst (handleSend_bounded lb to_prompt amountInput c w)) =
     (send_returns_early lb to_prompt amountInput c \<and> loading c) \<and>
   (\<forall>c' w'. handleSend_confirm fuel lb toAddress sendAmount c w = Some (c', w') \<longrightarrow>
      loading c' = (send_confirm_returns_early lb toAddress sendAmount c \<and> loading c)) \<and>
   loading (fst (handleSignMessage_manual msg c w)) = (sign_returns_early msg c \<and> loading c) \<and>
   loading (fst (handleSignMessage_Buffer msg c w)) = (sign_returns_early msg c \<and> loading c) \<and>
   (\<not> loading c \<longrightarrow>
      \<not> loading (fst (requestAirdrop_App lb amountValue c w)) \<and>
      \<not> loading (fst (requestAirdrop_Buffer lb amountValue c w)) \<and>
      \<not> loading (fst (handleSend_App lb to_prompt amountInput c w)) \<and>
      \<not> loading (fst (handleSend_bounded lb to_prompt amountInput c w)) \<and>
      (\<forall>c' w'. handleSend_confirm fuel lb toAddress sendAmount c w = Some (c', w') \<longrightarrow> \<not> loading c') \<and>
      \<not> loading (fst (handleSignMessage_manual msg c w)) \<and>
      \<not> loading (fst (handleSignMessage_Buffer msg c w)))"
proof -
  have 1: "loading (fst (requestAirdrop_App lb amountValue c w)) = (airdrop_returns_early lb amountValue c \<and> loading c)"
    by (rule requestAirdrop_App_loading)
  have 2: "loading (fst (requestAirdrop_Buffer lb amountValue c w)) = (airdrop_returns_early lb amountValue c \<and> loading c)"
    by (rule requestAirdrop_Buffer_loading)
  have 3: "loading (fst (handleSend_App lb to_prompt amountInput c w)) =
     (send_returns_early lb to_prompt amountInput c \<and> loading c)"
    by (rule handleSend_App_loading)
  have 4: "loading (fst (handleSend_bounded lb to_prompt amountInput c w)) =
     (send_returns_early lb to_prompt amountInput c \<and> loading c)"
    by (rule handleSend_bounded_loading)
  have 5: "\<forall>c' w'. handleSend_confirm fuel lb toAddress sendAmount c w = Some (c', w') \<longrightarrow>
      loading c' = (send_confirm_returns_early lb toAddress sendAmount c \<and> loading c)"
    by (blast dest: handleSend_confirm_loading)
  have 6: "loading (fst (handleSignMessage_manual msg c w)) = (sign_returns_early msg c \<and> loading c)"
    unfolding handleSignMessage_manual_def by (rule handleSignMessage_with_loading)
  have 7: "loading (fst (handleSignMessage_Buffer msg c w)) = (sign_returns_early msg c \<and> loading c)"
    unfolding handleSignMessage_Buffer_def by (rule handleSignMessage_with_loading)
  from 1 2 3 4 5 6 7 show ?thesis by blast
qed

text \<open>A transfer that fails on chain, an airdrop and a signature, from an idle wallet.\<close>

theorem loading_reset_on_every_exit_witness:
  "handleSend_confirm 5 lib0 ''recipient'' ''1'' connected fails_on_chain =
     Some (connected\<lparr>error := Some ''Transaction failed''\<rparr>, fails_on_chain_sent) \<and>
   \<not> loading connected \<and>
   \<not> send_confirm_returns_early lib0 ''recipient'' ''1'' connected \<and>
   \<not> loading (connected\<lparr>error := Some ''Transaction failed''\<rparr>) \<and>
   \<not> loading (fst (requestAirdrop_App lib0 ''1'' connected fails_on_chain)) \<and>
   \<not> loading (fst (handleSignMessage_manual ''hello'' connected fails_on_chain))"
proof -
  have a: "\<not> loading connected" by (simp add: connected_def)
  have b: "\<not> send_confirm_returns_early lib0 ''recipient'' ''1'' connected"
    by (simp add: send_confirm_returns_early_def amount_rejected_def lib0_def connected_def)
  from loading_reset_on_every_exit [of lib0 "''1''" connected fails_on_chain "Some ''recipient''"
      "Some ''1''" 5 "''recipient''" "''1''" "''hello''"] a run_fails_on_chain_sent
  have "\<not> loading (connected\<lparr>error := Some ''Transaction failed''\<rparr>)"
    "\<not> loading (fst (requestAirdrop_App lib0 ''1'' connected fails_on_chain))"
    "\<not> loading (fst (handleSignMessage_manual ''hello'' connected fails_on_chain))"
    by blast+
  with a b run_fails_on_chain_sent show ?thesis by blast
qed

text \<open>
  C10: the manual hex encoding (\<open>toString(16)\<close>, padded to two characters with \<open>0\<close>,
  joined) gives, for every byte array, the same string as the Buffer-based hex
  encoding.
\<close>

theorem manual_hex_is_Buffer_hex: "signatureHex sg = Buffer_toString_hex sg"
  by (simp add: signatureHex_def Buffer_toString_hex_def byte_hex)

end
